theory Spec2Isabelle
  imports Complex_Main
begin

section \<open>Common vocabulary: errors, console output, array helpers\<close>

text \<open>
  The Python sources are \<^verbatim>\<open>dynaphopy/classes/dynamics.py\<close> (class \<^verbatim>\<open>Dynamics\<close>) and
  \<^verbatim>\<open>dynaphopy/power_spectrum.py\<close>.  Floating-point numbers are modelled by the reals
  (exact arithmetic); numpy's 64-bit integers are integers kept in the signed 64-bit
  range by \<open>astype_int\<close> and \<open>int64\<close> below, Python's own integers are unbounded.  Every \<^verbatim>\<open>print\<close> appends a
  message to the field \<open>stdout\<close>; \<^verbatim>\<open>exit()\<close> and every raised exception is an \<open>Inl\<close>
  result.  \<open>SystemExit\<close> carries the console output at the moment of the exit.
\<close>

datatype message =
    Warning_step_number_larger
  | Using_steps nat
  | No_trajectory_loaded
  | No_velocity_provided
  | Fit_value real
  | Warning_cells_do_not_fit
  | Cell_relation_not_integer "real list"
  | MD_cell_size_relation "int list"
  | Number_of_coefficients_too_large
  | Fitting_error_skipping_point int
  | Progress string real string
  | Peak_number nat
  | Separator_line
  | Estimated_width real
  | Position real
  | Optimum_coefficients_num real
  | Fitting_error real
  | Newline
  | Padding_with_zeros int

datatype error =
    SystemExit "message list"
  | TypeError
  | AttributeError
  | IndexError
  | ValueError
  | ZeroDivisionError
  | KeyError
  | OverflowError

definition bindE :: "error + 'a \<Rightarrow> ('a \<Rightarrow> error + 'b) \<Rightarrow> error + 'b" where
  "bindE m f = (case m of Inl e \<Rightarrow> Inl e | Inr x \<Rightarrow> f x)"

fun foldE :: "('i \<Rightarrow> 's \<Rightarrow> error + 's) \<Rightarrow> 'i list \<Rightarrow> 's \<Rightarrow> error + 's" where
  "foldE f [] s = Inr s"
| "foldE f (i # is) s = (case f i s of Inl e \<Rightarrow> Inl e | Inr s' \<Rightarrow> foldE f is s')"

text \<open>\<^verbatim>\<open>range(n)\<close> for a Python integer \<open>n\<close>: empty when \<open>n \<le> 0\<close>.\<close>

definition range_py :: "int \<Rightarrow> nat list" where
  "range_py n = [0..<nat n]"

text \<open>
  The slice \<^verbatim>\<open>xs[start:]\<close> along the first axis: a negative start counts from the
  end and is clipped at the beginning, a non-negative start is clipped at the end.
\<close>

definition slice_from :: "int \<Rightarrow> 'a list \<Rightarrow> 'a list" where
  "slice_from start xs =
     (let n = int (length xs);
          b = (if start < 0 then max (n + start) 0 else min start n)
      in drop (nat b) xs)"

text \<open>
  Three-dimensional arrays indexed [time, atom, axis] are lists of frames, a frame a list
  of atoms, an atom a list of coordinates.  \<^verbatim>\<open>a[:, i, j]\<close>, \<^verbatim>\<open>a[:, i, :]\<close> and the
  corresponding assignments raise IndexError outside the shape, and an assignment of a
  value of another length raises ValueError.
\<close>

type_synonym 'a array3 = "'a list list list"

definition get_column :: "'a array3 \<Rightarrow> nat \<Rightarrow> nat \<Rightarrow> error + 'a list" where
  "get_column a i j =
     (if \<forall>f \<in> set a. i < length f \<and> j < length (f ! i)
      then Inr (map (\<lambda>f. f ! i ! j) a) else Inl IndexError)"

definition set_column :: "'a array3 \<Rightarrow> nat \<Rightarrow> nat \<Rightarrow> 'a list \<Rightarrow> error + 'a array3" where
  "set_column a i j c =
     (if \<not> (\<forall>f \<in> set a. i < length f \<and> j < length (f ! i)) then Inl IndexError
      else if length c \<noteq> length a then Inl ValueError
      else Inr (map (\<lambda>(f, x). f[i := (f ! i)[j := x]]) (zip a c)))"

definition get_atom :: "'a array3 \<Rightarrow> nat \<Rightarrow> error + 'a list list" where
  "get_atom a i =
     (if \<forall>f \<in> set a. i < length f then Inr (map (\<lambda>f. f ! i) a) else Inl IndexError)"

definition set_atom :: "'a array3 \<Rightarrow> nat \<Rightarrow> 'a list list \<Rightarrow> error + 'a array3" where
  "set_atom a i rows =
     (if \<not> (\<forall>f \<in> set a. i < length f) then Inl IndexError
      else if length rows \<noteq> length a \<or> (\<exists>(f, r) \<in> set (zip a rows). length r \<noteq> length (f ! i))
      then Inl ValueError
      else Inr (map (\<lambda>(f, r). f[i := r]) (zip a rows)))"

definition zeros_like :: "'b array3 \<Rightarrow> ('a::zero) array3" where
  "zeros_like a = map (map (map (\<lambda>_. 0))) a"

text \<open>
  \<^verbatim>\<open>np.empty_like\<close> returns a buffer of the same shape with unspecified contents; the
  contents are the parameter \<open>fill\<close>.
\<close>

definition empty_like :: "'a \<Rightarrow> 'a array3 \<Rightarrow> 'a array3" where
  "empty_like fill a = map (map (map (\<lambda>_. fill))) a"

section \<open>The class Dynamics\<close>

type_synonym vec3 = "real \<times> real \<times> real"
type_synonym mat3 = "vec3 \<times> vec3 \<times> vec3"

text \<open>
  The reference structure (\<^verbatim>\<open>dynaphopy.classes.atoms.Structure\<close>) is not part of the two
  source files; the values its methods return are the fields of this record.
  \<open>get_masses\<close> takes the \<^verbatim>\<open>super_cell\<close> keyword argument.
\<close>

record structure_t =
  get_cell :: mat3
  get_number_of_atoms_st :: int
  get_masses :: "int list \<Rightarrow> real list"
  get_number_of_dimensions :: int

record 'a dynamics =
  time_f :: "real list option"
  trajectory_f :: "'a array3 option"
  energy_f :: "real list option"
  velocity_f :: "'a array3 option"
  super_cell_f :: "mat3 option"
  time_step_average_f :: "real option"
  velocity_mass_average_f :: "'a array3 option"
  relative_trajectory_f :: "'a array3 option"
  super_cell_matrix_f :: "int list option"
  number_of_atoms_f :: "int option"
  mean_displacement_matrix_f :: "real list list list option"
  structure_f :: "structure_t option"
  stdout :: "message list"

text \<open>
  Collaborators outside the two source files: \<^verbatim>\<open>relativize_trajectory\<close> of
  \<^verbatim>\<open>dynaphopy.analysis.coordinates\<close>, which reads the model, and numpy's
  \<^verbatim>\<open>gradient\<close>; \<open>uninitialised\<close> is the content of a buffer made by \<^verbatim>\<open>np.empty_like\<close>.
\<close>

record 'a collaborators =
  relativize_trajectory :: "'a dynamics \<Rightarrow> error + 'a array3"
  gradient :: "'a list \<Rightarrow> real \<Rightarrow> error + 'a list"
  uninitialised :: 'a

definition print :: "message \<Rightarrow> ('a, 'm) dynamics_scheme \<Rightarrow> ('a, 'm) dynamics_scheme" where
  "print m s = s\<lparr>stdout := stdout s @ [m]\<rparr>"

definition init :: "structure_t option \<Rightarrow> 'a array3 option \<Rightarrow> 'a array3 option \<Rightarrow>
    real list option \<Rightarrow> real list option \<Rightarrow> mat3 option \<Rightarrow> 'a dynamics" where
  "init struct trajectory velocity energy time super_cell =
     \<lparr>time_f = time, trajectory_f = trajectory, energy_f = energy, velocity_f = velocity,
      super_cell_f = super_cell, time_step_average_f = None, velocity_mass_average_f = None,
      relative_trajectory_f = None, super_cell_matrix_f = None, number_of_atoms_f = None,
      mean_displacement_matrix_f = None, structure_f = struct, stdout = []\<rparr>"

definition set_super_cell :: "mat3 option \<Rightarrow> 'a dynamics \<Rightarrow> 'a dynamics" where
  "set_super_cell super_cell s = s\<lparr>super_cell_f := super_cell\<rparr>"

definition set_time :: "real list option \<Rightarrow> 'a dynamics \<Rightarrow> 'a dynamics" where
  "set_time time s = s\<lparr>time_f := time\<rparr>"

subsection \<open>get_time_step_average\<close>

text \<open>
  \<^verbatim>\<open>if not self._time_step_average\<close> holds for None and for zero.  The loop runs over
  \<^verbatim>\<open>range(len(time) - 1)\<close>, empty for an empty series as well; \<^verbatim>\<open>len(None)\<close> raises
  TypeError.
\<close>

definition time_step_loop :: "real list \<Rightarrow> real" where
  "time_step_loop t =
     fold (\<lambda>i acc. acc + (t ! (i + 1) - t ! i) / (real (length t) - 1)) [0..<length t - 1] 0"

definition get_time_step_average :: "'a dynamics \<Rightarrow> error + real \<times> 'a dynamics" where
  "get_time_step_average s =
     (if time_step_average_f s = None \<or> time_step_average_f s = Some 0
      then (case time_f s of
              None \<Rightarrow> Inl TypeError
            | Some t \<Rightarrow> (let a = time_step_loop t in Inr (a, s\<lparr>time_step_average_f := Some a\<rparr>)))
      else Inr (the (time_step_average_f s), s))"

subsection \<open>get_super_cell_matrix and get_number_of_atoms\<close>

text \<open>
  \<^verbatim>\<open>np.linalg.norm\<close> of a real vector, the inner function \<^verbatim>\<open>parameters\<close> (norms of
  the three columns of a cell matrix given by its rows), and \<^verbatim>\<open>np.around\<close>, which rounds
  half-way cases to the nearest even integer.  \<^verbatim>\<open>np.divide\<close> by zero yields inf or nan
  in numpy and raises nothing; here it is the division of the reals.
\<close>

definition linalg_norm :: "real list \<Rightarrow> real" where
  "linalg_norm v = sqrt (sum_list (map (\<lambda>x. x\<^sup>2) v))"

fun parameters :: "mat3 \<Rightarrow> real list" where
  "parameters ((h00, h01, h02), (h10, h11, h12), (h20, h21, h22)) =
     [linalg_norm [h00, h10, h20], linalg_norm [h01, h11, h21], linalg_norm [h02, h12, h22]]"

definition around :: "real \<Rightarrow> int" where
  "around x =
     (let f = \<lfloor>x\<rfloor>; d = x - of_int f
      in if d < 1 / 2 then f else if 1 / 2 < d then f + 1 else if even f then f else f + 1)"

text \<open>
  \<^verbatim>\<open>.astype("int")\<close> of a rounded float: the integer itself inside the signed 64-bit
  range, the smallest 64-bit integer outside it.  \<open>int64\<close> is the wrap-around of 64-bit
  integer arithmetic (\<^verbatim>\<open>np.product\<close> and products of numpy integers).
\<close>

definition astype_int :: "int \<Rightarrow> int" where
  "astype_int k = (if - (2 ^ 63) \<le> k \<and> k < 2 ^ 63 then k else - (2 ^ 63))"

definition int64 :: "int \<Rightarrow> int" where
  "int64 k = (k + 2 ^ 63) mod 2 ^ 64 - 2 ^ 63"

definition divide_arrays :: "real list \<Rightarrow> real list \<Rightarrow> real list" where
  "divide_arrays xs ys = map (\<lambda>(x, y). x / y) (zip xs ys)"

definition cell_fit :: "int list \<Rightarrow> real list \<Rightarrow> real" where
  "cell_fit m r = \<bar>sum_list (map (\<lambda>(a, b). real_of_int a - b) (zip m r)) / linalg_norm r\<bar>"

definition get_super_cell_matrix :: "real \<Rightarrow> 'a dynamics \<Rightarrow> error + int list \<times> 'a dynamics" where
  "get_super_cell_matrix tolerance s =
     (case super_cell_matrix_f s of
        Some m \<Rightarrow> Inr (m, s)
      | None \<Rightarrow>
          (case super_cell_f s of
             None \<Rightarrow> Inl TypeError
           | Some sc \<Rightarrow>
               (case structure_f s of
                  None \<Rightarrow> Inl AttributeError
                | Some st \<Rightarrow>
                    (let super_cell_matrix_real = divide_arrays (parameters sc) (parameters (get_cell st));
                         m = map (\<lambda>x. astype_int (around x)) super_cell_matrix_real;
                         s1 = s\<lparr>super_cell_matrix_f := Some m\<rparr>
                     in if cell_fit m super_cell_matrix_real > tolerance
                        then Inl (SystemExit (stdout s1 @
                               [Fit_value (cell_fit m super_cell_matrix_real),
                                Warning_cells_do_not_fit,
                                Cell_relation_not_integer super_cell_matrix_real]))
                        else Inr (m, print (MD_cell_size_relation m) s1)))))"

text \<open>The default tolerance of \<^verbatim>\<open>get_super_cell_matrix\<close>.\<close>

definition default_tolerance :: real where
  "default_tolerance = 1 / 100"

text \<open>
  \<^verbatim>\<open>structure.get_number_of_atoms() * np.product(self.get_super_cell_matrix())\<close>:
  \<^verbatim>\<open>np.product\<close> multiplies the 64-bit entries with wrap-around, and the structure's atom
  count, a Python integer, is converted to 64 bits for the product, which wraps around as
  well.  A count outside the signed 64-bit range has no such conversion: the model stops
  there with OverflowError, and the properties below are stated for counts inside the
  range.
\<close>

definition get_number_of_atoms :: "'a dynamics \<Rightarrow> error + int \<times> 'a dynamics" where
  "get_number_of_atoms s =
     (case number_of_atoms_f s of
        Some n \<Rightarrow> Inr (n, s)
      | None \<Rightarrow>
          (case structure_f s of
             None \<Rightarrow> Inl AttributeError
           | Some st \<Rightarrow>
               bindE (get_super_cell_matrix default_tolerance s) (\<lambda>(m, s1).
                 if - (2 ^ 63) \<le> get_number_of_atoms_st st \<and> get_number_of_atoms_st st < 2 ^ 63
                 then (let n = int64 (get_number_of_atoms_st st * int64 (prod_list m))
                       in Inr (n, s1\<lparr>number_of_atoms_f := Some n\<rparr>))
                 else Inl OverflowError)))"

subsection \<open>get_relative_trajectory and the property velocity\<close>

definition get_relative_trajectory ::
    "'a collaborators \<Rightarrow> 'a dynamics \<Rightarrow> error + 'a array3 \<times> 'a dynamics" where
  "get_relative_trajectory env s =
     (case relative_trajectory_f s of
        Some r \<Rightarrow> Inr (r, s)
      | None \<Rightarrow> bindE (relativize_trajectory env s) (\<lambda>r.
                  Inr (r, s\<lparr>relative_trajectory_f := Some r\<rparr>)))"

text \<open>
  One assignment \<^verbatim>\<open>self._velocity[:,i,j] = np.gradient(rel[:,i,j], dt)\<close> of the double
  loop of the property.
\<close>

definition velocity_step ::
    "('a::zero) collaborators \<Rightarrow> nat \<Rightarrow> nat \<Rightarrow> 'a dynamics \<Rightarrow> error + 'a dynamics" where
  "velocity_step env i j s =
     bindE (get_relative_trajectory env s) (\<lambda>(rel, s1).
     bindE (get_column rel i j) (\<lambda>c.
     bindE (get_time_step_average s1) (\<lambda>(dt, s2).
     bindE (gradient env c dt) (\<lambda>g.
       (case velocity_f s2 of
          None \<Rightarrow> Inl TypeError
        | Some v \<Rightarrow> bindE (set_column v i j g) (\<lambda>v'. Inr (s2\<lparr>velocity_f := Some v'\<rparr>)))))))"

definition velocity ::
    "('a::zero) collaborators \<Rightarrow> 'a dynamics \<Rightarrow> error + 'a array3 \<times> 'a dynamics" where
  "velocity env s =
     (case velocity_f s of
        Some v \<Rightarrow> Inr (v, s)
      | None \<Rightarrow>
          bindE (get_relative_trajectory env (print No_velocity_provided s)) (\<lambda>(rel, s1).
          bindE (get_number_of_atoms (s1\<lparr>velocity_f := Some (zeros_like rel)\<rparr>)) (\<lambda>(n, s2).
          bindE (foldE (\<lambda>i st.
                   (case structure_f st of
                      None \<Rightarrow> Inl AttributeError
                    | Some str \<Rightarrow>
                        foldE (velocity_step env i) (range_py (get_number_of_dimensions str)) st))
                   (range_py n) s2) (\<lambda>s3.
            (case velocity_f s3 of
               None \<Rightarrow> Inl TypeError
             | Some v \<Rightarrow> Inr (v, s3))))))"

subsection \<open>crop_trajectory\<close>

text \<open>
  The three guarded assignments to \<^verbatim>\<open>_trajectory\<close>, \<^verbatim>\<open>_energy\<close> and \<^verbatim>\<open>_time\<close>
  (the first with its warning), for a last_steps that passed the guard.
\<close>

definition crop_stored :: "int \<Rightarrow> 'a dynamics \<Rightarrow> 'a dynamics" where
  "crop_stored n s =
     (let s1 = (case trajectory_f s of
                  None \<Rightarrow> s
                | Some tr \<Rightarrow>
                    (if n > int (length tr) then print Warning_step_number_larger s else s)
                      \<lparr>trajectory_f := Some (slice_from (- n) tr)\<rparr>);
          s2 = (case energy_f s1 of
                  None \<Rightarrow> s1
                | Some e \<Rightarrow> s1\<lparr>energy_f := Some (slice_from (- n) e)\<rparr>)
      in (case time_f s2 of
            None \<Rightarrow> s2
          | Some t \<Rightarrow> s2\<lparr>time_f := Some (slice_from (- n) t)\<rparr>))"

text \<open>
  The property \<^verbatim>\<open>self.velocity\<close> is read three times: for the warning, for the slice
  and for the final message.
\<close>

definition crop_trajectory ::
    "('a::zero) collaborators \<Rightarrow> int option \<Rightarrow> 'a dynamics \<Rightarrow> error + 'a dynamics" where
  "crop_trajectory env last_steps s =
     (case last_steps of
        None \<Rightarrow> Inr s
      | Some n \<Rightarrow>
          if n < 0 then Inr s
          else
            bindE (velocity env (crop_stored n s)) (\<lambda>(v, s4).
              (let s5 = (if n > int (length v) then print Warning_step_number_larger s4 else s4)
               in bindE (velocity env s5) (\<lambda>(v', s6).
                  (let s7 = s6\<lparr>velocity_f := Some (slice_from (- n) v'),
                               velocity_mass_average_f := None,
                               relative_trajectory_f := None\<rparr>
                   in bindE (velocity env s7) (\<lambda>(v'', s8).
                        Inr (print (Using_steps (length v'')) s8)))))))"

subsection \<open>get_velocity_mass_average\<close>

text \<open>
  One pass of the loop: \<^verbatim>\<open>buffer[:, i, :] = self.velocity[:, i, :] * np.sqrt(masses[i])\<close>
  with \<^verbatim>\<open>masses = self.structure.get_masses(super_cell=super_cell)\<close>.
\<close>

definition mass_average_step ::
    "('a::real_normed_field) collaborators \<Rightarrow> int list \<Rightarrow> nat \<Rightarrow> 'a dynamics \<Rightarrow> error + 'a dynamics" where
  "mass_average_step env super_cell i s =
     bindE (velocity env s) (\<lambda>(v, s1).
     bindE (get_atom v i) (\<lambda>rows.
       (case structure_f s1 of
          None \<Rightarrow> Inl AttributeError
        | Some str \<Rightarrow>
            (let masses = get_masses str super_cell
             in if i < length masses
                then (case velocity_mass_average_f s1 of
                        None \<Rightarrow> Inl TypeError
                      | Some w \<Rightarrow>
                          bindE (set_atom w i (map (map (\<lambda>x. x * of_real (sqrt (masses ! i)))) rows))
                            (\<lambda>w'. Inr (s1\<lparr>velocity_mass_average_f := Some w'\<rparr>)))
                else Inl IndexError))))"

definition get_velocity_mass_average ::
    "('a::real_normed_field) collaborators \<Rightarrow> 'a dynamics \<Rightarrow> error + 'a array3 \<times> 'a dynamics" where
  "get_velocity_mass_average env s =
     (case velocity_mass_average_f s of
        Some w \<Rightarrow> Inr (w, s)
      | None \<Rightarrow>
          bindE (velocity env s) (\<lambda>(v, s1).
          bindE (get_super_cell_matrix default_tolerance
                   (s1\<lparr>velocity_mass_average_f := Some (empty_like (uninitialised env) v)\<rparr>))
            (\<lambda>(super_cell, s2).
          bindE (get_number_of_atoms s2) (\<lambda>(n, s3).
          bindE (foldE (mass_average_step env super_cell) (range_py n) s3) (\<lambda>s4.
            (case velocity_mass_average_f s4 of
               None \<Rightarrow> Inl TypeError
             | Some w \<Rightarrow> Inr (w, s4)))))))"

section \<open>The module power_spectrum\<close>

text \<open>
  A two-dimensional numpy array (here the mode matrix \<^verbatim>\<open>vq\<close>, indexed [time, mode]) is
  the list of its rows together with the length of its second axis, which the rows do not
  determine when there are none.  \<^verbatim>\<open>vq[:, i]\<close> raises IndexError outside the shape.
\<close>

record 'a ndarray =
  shape1 :: nat
  rows :: "'a list list"

definition shape0 :: "'a ndarray \<Rightarrow> nat" where
  "shape0 vq = length (rows vq)"

definition get_mode :: "'a ndarray \<Rightarrow> nat \<Rightarrow> error + 'a list" where
  "get_mode vq i =
     (if i < shape1 vq \<and> (\<forall>r \<in> set (rows vq). i < length r)
      then Inr (map (\<lambda>r. r ! i) (rows vq)) else Inl IndexError)"

definition index :: "'a list \<Rightarrow> nat \<Rightarrow> error + 'a" where
  "index xs i = (if i < length xs then Inr (xs ! i) else Inl IndexError)"

text \<open>The configuration object \<^verbatim>\<open>parameters\<close> (fields read by this module).\<close>

record parameters_t =
  frequency_range :: "real list"
  number_of_coefficients_mem :: int
  mem_scan_range :: "int list"
  zero_padding :: int

text \<open>A Lorentzian parameter vector: position, half-width, area scale, baseline.\<close>

type_synonym fit_params = "real \<times> real \<times> real \<times> real"

text \<open>
  Collaborators outside the two source files: the Maximum-Entropy solver
  \<^verbatim>\<open>dynaphopy.mem.mem\<close>, scipy's \<^verbatim>\<open>curve_fit\<close> applied to the Lorentzian model (None
  when it raises), and \<^verbatim>\<open>get_error_from_covariance\<close> of \<^verbatim>\<open>dynaphopy.analysis.fitting\<close>.
\<close>

record ('a, 'c) numerics =
  mem :: "real list \<Rightarrow> 'a list \<Rightarrow> real \<Rightarrow> int \<Rightarrow> real list"
  curve_fit :: "real list \<Rightarrow> real list \<Rightarrow> fit_params \<Rightarrow> (fit_params \<times> 'c) option"
  get_error_from_covariance :: "'c \<Rightarrow> real"

definition unit_conversion :: real where
  "unit_conversion = 6651206285 / 10000000000000"

text \<open>
  \<^verbatim>\<open>progress_bar\<close> is always called with a float or the integer 0; it clamps the
  progress to [0, 1] and writes one line.
\<close>

definition progress_bar :: "real \<Rightarrow> string \<Rightarrow> 'a dynamics \<Rightarrow> 'a dynamics" where
  "progress_bar progress label s =
     (let (p1, status1) = (if progress < 0 then (0, ''Halt ...'') else (progress, []));
          (p2, status2) = (if p1 \<ge> 1 then (1, ''Done...'') else (p1, status1))
      in print (Progress label p2 status2) s)"

subsection \<open>numpy reductions\<close>

fun first_index :: "'a list \<Rightarrow> 'a \<Rightarrow> nat" where
  "first_index [] y = 0"
| "first_index (x # xs) y = (if x = y then 0 else Suc (first_index xs y))"

definition np_max :: "real list \<Rightarrow> error + real" where
  "np_max xs = (if xs = [] then Inl ValueError else Inr (Max (set xs)))"

definition np_min :: "real list \<Rightarrow> error + real" where
  "np_min xs = (if xs = [] then Inl ValueError else Inr (Min (set xs)))"

definition np_argmax :: "real list \<Rightarrow> error + nat" where
  "np_argmax xs = (if xs = [] then Inl ValueError else Inr (first_index xs (Max (set xs))))"

definition np_argmin :: "real list \<Rightarrow> error + nat" where
  "np_argmin xs = (if xs = [] then Inl ValueError else Inr (first_index xs (Min (set xs))))"

text \<open>\<^verbatim>\<open>np.average(a, weights=w)\<close>: the weights must have the shape of the data and a
  non-zero sum.\<close>

definition np_average :: "real list \<Rightarrow> real list \<Rightarrow> error + real" where
  "np_average a w =
     (if length w \<noteq> length a then Inl TypeError
      else if sum_list w = 0 then Inl ZeroDivisionError
      else Inr (sum_list (map (\<lambda>(x, y). x * y) (zip a w)) / sum_list w))"

text \<open>
  \<^verbatim>\<open>np.array(rows).T\<close> for a list of equally long rows; the empty list gives the empty
  one-dimensional array.
\<close>

definition array_T :: "'a list list \<Rightarrow> 'a list list" where
  "array_T xs = transpose xs"

subsection \<open>get_mem_spectra_par_openmp\<close>

definition mem_spectra_step ::
    "('a, 'c) numerics \<Rightarrow> 'a ndarray \<Rightarrow> parameters_t \<Rightarrow> nat \<Rightarrow>
     real list list \<times> 'b dynamics \<Rightarrow> error + real list list \<times> 'b dynamics" where
  "mem_spectra_step env vq par i = (\<lambda>(psd_vector, trajectory).
     bindE (get_mode vq i) (\<lambda>column.
     bindE (get_time_step_average trajectory) (\<lambda>(dt, trajectory1).
       Inr (psd_vector @ [mem env (frequency_range par) column dt (number_of_coefficients_mem par)],
            progress_bar (real (i + 1) / real (shape1 vq)) ''M. Entropy'' trajectory1))))"

definition get_mem_spectra_par_openmp ::
    "('a, 'c) numerics \<Rightarrow> 'a ndarray \<Rightarrow> 'b dynamics \<Rightarrow> parameters_t \<Rightarrow>
     error + real list list \<times> 'b dynamics" where
  "get_mem_spectra_par_openmp env vq trajectory par =
     (if int (shape0 vq) \<le> number_of_coefficients_mem par + 1
      then Inl (SystemExit (stdout trajectory @ [Number_of_coefficients_too_large]))
      else bindE (foldE (mem_spectra_step env vq par) [0..<shape1 vq]
                    ([], progress_bar 0 ''M. Entropy'' trajectory))
             (\<lambda>(psd_vector, trajectory1).
                Inr (map (map (\<lambda>x. x * unit_conversion)) (array_T psd_vector), trajectory1)))"

subsection \<open>mem_coefficient_scan_analysis\<close>

text \<open>
  The entry \<^verbatim>\<open>[power_spectrum, best_width, best_index, fit_data, scan_params]\<close> stored in
  \<^verbatim>\<open>mem_full_dict\<close> for one mode.
\<close>

record scan_entry =
  entry_power_spectrum :: "real list"
  entry_best_width :: real
  entry_best_index :: nat
  entry_fit_data :: "real list list"
  entry_scan_params :: "fit_params list"

text \<open>
  One pass of the inner loop, for the candidate \<open>number_of_coefficients\<close>.  The loop
  state holds the lists \<^verbatim>\<open>fit_data\<close>, \<^verbatim>\<open>scan_params\<close>, \<^verbatim>\<open>power_spectra\<close> and the
  trajectory model.  A failed fit prints the warning and continues with the next candidate.
  After a successful fit the quotient passed to \<^verbatim>\<open>progress_bar\<close> divides a float by the
  last entry of \<^verbatim>\<open>mem_scan_range\<close>, a Python integer: ZeroDivisionError when that entry
  is 0.
\<close>

definition scan_step ::
    "('a, 'c) numerics \<Rightarrow> 'a ndarray \<Rightarrow> parameters_t \<Rightarrow> nat \<Rightarrow> int \<Rightarrow>
     real list list \<times> fit_params list \<times> real list list \<times> 'b dynamics \<Rightarrow>
     error + real list list \<times> fit_params list \<times> real list list \<times> 'b dynamics" where
  "scan_step env vq par i number_of_coefficients = (\<lambda>(fit_data, scan_params, power_spectra, trajectory).
     bindE (get_mode vq i) (\<lambda>column.
     bindE (get_time_step_average trajectory) (\<lambda>(dt, trajectory1).
       (let power_spectrum = mem env (frequency_range par) column dt number_of_coefficients
        in bindE (np_max power_spectrum) (\<lambda>height.
           bindE (np_argmax power_spectrum) (\<lambda>k.
           bindE (index (frequency_range par) k) (\<lambda>position.
             (case curve_fit env (frequency_range par) power_spectrum (position, 1 / 10, height, 0) of
                None \<Rightarrow>
                  Inr (fit_data, scan_params, power_spectra,
                       print (Fitting_error_skipping_point number_of_coefficients) trajectory1)
              | Some (fit_params, fit_covariances) \<Rightarrow>
                  (let maximum = fst (snd (snd fit_params)) / (fst (snd fit_params) * pi);
                       error = get_error_from_covariance env fit_covariances;
                       width = 2 * fst (snd fit_params)
                   in if last (mem_scan_range par) = 0 then Inl ZeroDivisionError
                      else Inr (fit_data @ [[real_of_int number_of_coefficients, width, error / maximum]],
                                scan_params @ [fit_params],
                                power_spectra @ [power_spectrum],
                                progress_bar (real_of_int (number_of_coefficients + 1) /
                                              real_of_int (last (mem_scan_range par)))
                                  ''M.E. Method'' trajectory1))))))))))"

text \<open>The body of the first loop for the mode \<open>i\<close>: the scan and the selection.\<close>

definition mode_scan ::
    "('a, 'c) numerics \<Rightarrow> 'a ndarray \<Rightarrow> parameters_t \<Rightarrow> nat \<Rightarrow> 'b dynamics \<Rightarrow>
     error + scan_entry \<times> 'b dynamics" where
  "mode_scan env vq par i trajectory =
     bindE (foldE (scan_step env vq par i) (mem_scan_range par)
              ([], [], [], progress_bar 0 ''M.E. Method'' trajectory))
       (\<lambda>(fit_list, scan_params, power_spectra, trajectory1).
          (let fit_data = array_T fit_list
           in bindE (index fit_data 1) (\<lambda>widths.
              bindE (index fit_data 2) (\<lambda>errors.
              bindE (np_average widths (map (\<lambda>e. sqrt (1 / e)) errors)) (\<lambda>best_width.
              bindE (np_argmin errors) (\<lambda>best_index.
              bindE (index power_spectra best_index) (\<lambda>power_spectrum.
                Inr (\<lparr>entry_power_spectrum = power_spectrum, entry_best_width = best_width,
                      entry_best_index = best_index, entry_fit_data = fit_data,
                      entry_scan_params = scan_params\<rparr>, trajectory1))))))))"

text \<open>The report printed for the mode \<open>i\<close> by the second loop (the plots are left out).\<close>

definition report_mode ::
    "nat \<Rightarrow> (nat \<rightharpoonup> scan_entry) \<times> 'b dynamics \<Rightarrow> error + (nat \<rightharpoonup> scan_entry) \<times> 'b dynamics" where
  "report_mode i = (\<lambda>(mem_full_dict, trajectory).
     (case mem_full_dict i of
        None \<Rightarrow> Inl KeyError
      | Some e \<Rightarrow>
          (let t1 = print (Estimated_width (entry_best_width e))
                      (print Separator_line (print (Peak_number (i + 1)) trajectory))
           in bindE (index (entry_scan_params e) (entry_best_index e)) (\<lambda>best_params.
              bindE (index (entry_fit_data e) 0) (\<lambda>counts.
              bindE (index counts (entry_best_index e)) (\<lambda>optimum.
              bindE (index (entry_fit_data e) 2) (\<lambda>errors.
              bindE (np_min errors) (\<lambda>fitting_error.
                Inr (mem_full_dict,
                     print Newline (print (Fitting_error fitting_error)
                       (print (Optimum_coefficients_num optimum)
                          (print (Position (fst best_params)) t1))))))))))))"

text \<open>One pass of the first loop: the scan of mode \<open>i\<close> and the update of \<^verbatim>\<open>mem_full_dict\<close>.\<close>

definition store_mode_scan ::
    "('a, 'c) numerics \<Rightarrow> 'a ndarray \<Rightarrow> parameters_t \<Rightarrow> nat \<Rightarrow>
     (nat \<rightharpoonup> scan_entry) \<times> 'b dynamics \<Rightarrow> error + (nat \<rightharpoonup> scan_entry) \<times> 'b dynamics" where
  "store_mode_scan env vq par i = (\<lambda>(mem_full_dict, trajectory).
     bindE (mode_scan env vq par i trajectory)
       (\<lambda>(e, trajectory1). Inr (mem_full_dict(i \<mapsto> e), trajectory1)))"

definition mem_coefficient_scan_analysis ::
    "('a, 'c) numerics \<Rightarrow> 'a ndarray \<Rightarrow> 'b dynamics \<Rightarrow> parameters_t \<Rightarrow>
     error + (nat \<rightharpoonup> scan_entry) \<times> 'b dynamics" where
  "mem_coefficient_scan_analysis env vq trajectory par =
     bindE (foldE (store_mode_scan env vq par) [0..<shape1 vq] (Map.empty, trajectory))
       (foldE report_mode [0..<shape1 vq])"

section \<open>The coefficient scan in the words of the specification\<close>

text \<open>
  For one mode column and one time step: the spectrum of a candidate coefficient count,
  its Lorentzian fit seeded with (frequency of the maximum, 0.1, maximum, 0), the
  candidates whose fit succeeds, the triple recorded for a successful candidate, and the
  average of the widths weighted by \<open>sqrt (1 / normalized error)\<close>.
\<close>

definition half_width :: "fit_params \<Rightarrow> real" where
  "half_width p = fst (snd p)"

definition area_scale :: "fit_params \<Rightarrow> real" where
  "area_scale p = fst (snd (snd p))"

definition candidate_spectrum ::
    "('a, 'c) numerics \<Rightarrow> parameters_t \<Rightarrow> 'a list \<Rightarrow> real \<Rightarrow> int \<Rightarrow> real list" where
  "candidate_spectrum env par column dt n = mem env (frequency_range par) column dt n"

definition lorentzian_seed :: "real list \<Rightarrow> real list \<Rightarrow> fit_params" where
  "lorentzian_seed freq spectrum =
     (freq ! first_index spectrum (Max (set spectrum)), 1 / 10, Max (set spectrum), 0)"

definition candidate_fit ::
    "('a, 'c) numerics \<Rightarrow> parameters_t \<Rightarrow> 'a list \<Rightarrow> real \<Rightarrow> int \<Rightarrow> (fit_params \<times> 'c) option" where
  "candidate_fit env par column dt n =
     curve_fit env (frequency_range par) (candidate_spectrum env par column dt n)
       (lorentzian_seed (frequency_range par) (candidate_spectrum env par column dt n))"

definition successful_candidates ::
    "('a, 'c) numerics \<Rightarrow> parameters_t \<Rightarrow> 'a list \<Rightarrow> real \<Rightarrow> int list" where
  "successful_candidates env par column dt =
     filter (\<lambda>n. candidate_fit env par column dt n \<noteq> None) (mem_scan_range par)"

definition recorded_triple ::
    "('a, 'c) numerics \<Rightarrow> parameters_t \<Rightarrow> 'a list \<Rightarrow> real \<Rightarrow> int \<Rightarrow> real list" where
  "recorded_triple env par column dt n =
     (case candidate_fit env par column dt n of
        None \<Rightarrow> []
      | Some (p, covariance) \<Rightarrow>
          [real_of_int n, 2 * half_width p,
           get_error_from_covariance env covariance / (area_scale p / (half_width p * pi))])"

definition fitted_parameters ::
    "('a, 'c) numerics \<Rightarrow> parameters_t \<Rightarrow> 'a list \<Rightarrow> real \<Rightarrow> int \<Rightarrow> fit_params" where
  "fitted_parameters env par column dt n =
     (case candidate_fit env par column dt n of
        None \<Rightarrow> (0, 0, 0, 0)
      | Some (p, covariance) \<Rightarrow> p)"

definition weighted_average_width :: "real list \<Rightarrow> real list \<Rightarrow> real" where
  "weighted_average_width widths errors =
     (\<Sum>(w, e) \<leftarrow> zip widths errors. w * sqrt (1 / e)) / (\<Sum>e \<leftarrow> errors. sqrt (1 / e))"

section \<open>The FFT method\<close>

text \<open>
  The numpy functions used by \<^verbatim>\<open>autocorrelation\<close> and \<^verbatim>\<open>fft_power\<close>, after numpy's
  documentation, over the complex numbers and the reals.

  \<^verbatim>\<open>np.correlate(a, v, mode)\<close>: the value at lag \<open>k\<close> is the sum of
  \<open>a[n + k] * conj(v[n])\<close> over the \<open>n\<close> for which both indices exist; mode 'full' lists
  the lags from \<open>-(len(v) - 1)\<close> to \<open>len(a) - 1\<close>, mode 'same' keeps the middle
  \<open>max(len(a), len(v))\<close> of them; empty inputs raise ValueError.
\<close>

definition correlation_at :: "complex list \<Rightarrow> complex list \<Rightarrow> int \<Rightarrow> complex" where
  "correlation_at a v k =
     (\<Sum>n \<leftarrow> [0..<length v].
        if 0 \<le> int n + k \<and> int n + k < int (length a)
        then a ! nat (int n + k) * cnj (v ! n) else 0)"

definition correlate_full :: "complex list \<Rightarrow> complex list \<Rightarrow> complex list" where
  "correlate_full a v =
     map (\<lambda>m. correlation_at a v (int m - (int (length v) - 1))) [0..<length a + length v - 1]"

definition correlate_same :: "complex list \<Rightarrow> complex list \<Rightarrow> error + complex list" where
  "correlate_same a v =
     (if a = [] \<or> v = [] then Inl ValueError
      else Inr (take (max (length a) (length v))
                  (drop ((min (length a) (length v) - 1) div 2) (correlate_full a v))))"

text \<open>\<^verbatim>\<open>np.lib.pad(data, (0, n), 'constant', constant_values=(0, 0))\<close>; a negative width
  raises ValueError.\<close>

definition pad_right :: "complex list \<Rightarrow> int \<Rightarrow> error + complex list" where
  "pad_right data n = (if n < 0 then Inl ValueError else Inr (data @ replicate (nat n) 0))"

text \<open>\<^verbatim>\<open>np.fft.fft\<close>: the discrete Fourier transform.\<close>

definition fft :: "complex list \<Rightarrow> complex list" where
  "fft xs =
     map (\<lambda>k. \<Sum>n \<leftarrow> [0..<length xs].
                 xs ! n * cis (- 2 * pi * real k * real n / real (length xs)))
       [0..<length xs]"

text \<open>
  \<^verbatim>\<open>np.fft.fftfreq(n, d)\<close>: the integers \<open>0, \<dots>, (n - 1) div 2\<close> followed by
  \<open>-(n div 2), \<dots>, -1\<close>, each multiplied by \<open>1 / (n * d)\<close>.
\<close>

definition fftfreq :: "nat \<Rightarrow> real \<Rightarrow> real list" where
  "fftfreq n d =
     map (\<lambda>i. real_of_int i * (1 / (real n * d)))
       (map int [0..<(n - 1) div 2 + 1] @ map (\<lambda>i. int i - int (n div 2)) [0..<n div 2])"

text \<open>
  \<^verbatim>\<open>np.argsort\<close>: the indices in ascending order of their values; indexing an array
  with an index array.
\<close>

definition argsort :: "real list \<Rightarrow> nat list" where
  "argsort xs = sort_key (\<lambda>i. xs ! i) [0..<length xs]"

definition take_indices :: "'a list \<Rightarrow> nat list \<Rightarrow> 'a list" where
  "take_indices xs idx = map (\<lambda>i. xs ! i) idx"

text \<open>
  \<^verbatim>\<open>np.interp(x, xp, fp)\<close> for increasing sample points \<open>xp\<close>: linear between
  neighbouring points, the first value to the left of them, the last to the right; no
  sample points, or values of another length, raise ValueError.
\<close>

fun interpolate :: "real \<Rightarrow> (real \<times> real) list \<Rightarrow> real" where
  "interpolate x [] = 0"
| "interpolate x [(a, fa)] = fa"
| "interpolate x ((a, fa) # (b, fb) # rest) =
     (if x < b then (if x \<le> a then fa else fa + (x - a) * ((fb - fa) / (b - a)))
      else interpolate x ((b, fb) # rest))"

definition np_interp :: "real list \<Rightarrow> real list \<Rightarrow> real list \<Rightarrow> error + real list" where
  "np_interp xs xp fp =
     (if xp = [] \<or> length fp \<noteq> length xp then Inl ValueError
      else Inr (map (\<lambda>x. interpolate x (zip xp fp)) xs))"

subsection \<open>autocorrelation and fft_power\<close>

definition autocorrelation :: "complex list \<Rightarrow> error + complex list" where
  "autocorrelation x =
     bindE (correlate_same x x) (\<lambda>r. Inr (map (\<lambda>z. z / of_nat (length x)) r))"

text \<open>The arguments \<^verbatim>\<open>frequency_range\<close> and \<^verbatim>\<open>zero_padding\<close> are \<open>grid\<close> and
  \<open>padding\<close> here.\<close>

definition fft_power :: "real list \<Rightarrow> complex list \<Rightarrow> real \<Rightarrow> int \<Rightarrow> error + real list" where
  "fft_power grid data time_step padding =
     bindE (autocorrelation data) (\<lambda>data1.
     bindE (pad_right data1 padding) (\<lambda>data2.
       (let ps = map (\<lambda>z. cmod z * time_step / 2) (fft data2);
            freqs = fftfreq (length data2) time_step;
            idx = argsort freqs
        in np_interp grid (take_indices freqs idx) (take_indices ps idx))))"

section \<open>The FFT method in the words of the specification\<close>

text \<open>
  The same-length centred autocorrelation divided by the length (entry \<open>j\<close> is the lag
  \<open>j - N div 2\<close>), its right zero-padding, the magnitudes of the discrete Fourier transform
  scaled by \<open>time_step / 2\<close>, the (frequency, magnitude) pairs sorted by ascending
  frequency, and their linear interpolation on the grid.
\<close>

definition centered_autocorrelation :: "complex list \<Rightarrow> complex list" where
  "centered_autocorrelation x =
     map (\<lambda>j. correlation_at x x (int j - int (length x div 2)) / of_nat (length x))
       [0..<length x]"

definition padded_autocorrelation :: "complex list \<Rightarrow> nat \<Rightarrow> complex list" where
  "padded_autocorrelation x pad = centered_autocorrelation x @ replicate pad 0"

definition magnitude_spectrum :: "complex list \<Rightarrow> real \<Rightarrow> nat \<Rightarrow> real list" where
  "magnitude_spectrum x time_step pad =
     map (\<lambda>z. cmod z * time_step / 2) (fft (padded_autocorrelation x pad))"

definition sorted_spectrum :: "complex list \<Rightarrow> real \<Rightarrow> nat \<Rightarrow> (real \<times> real) list" where
  "sorted_spectrum x time_step pad =
     sort_key fst (zip (fftfreq (length x + pad) time_step) (magnitude_spectrum x time_step pad))"

definition fft_power_spec :: "real list \<Rightarrow> complex list \<Rightarrow> real \<Rightarrow> nat \<Rightarrow> real list" where
  "fft_power_spec grid x time_step pad =
     map (\<lambda>f. interpolate f (sorted_spectrum x time_step pad)) grid"

section \<open>Example inputs\<close>

definition example_numerics :: "(real, unit) numerics" where
  "example_numerics = \<lparr>mem = (\<lambda>f c dt n. map (\<lambda>x. x + dt) f), curve_fit = (\<lambda>f p g. None),
     get_error_from_covariance = (\<lambda>c. 0)\<rparr>"

definition example_vq :: "real ndarray" where
  "example_vq = \<lparr>shape1 = 1, rows = [[1], [2], [3]]\<rparr>"

definition example_parameters :: parameters_t where
  "example_parameters = \<lparr>frequency_range = [0, 1], number_of_coefficients_mem = 1,
     mem_scan_range = [1], zero_padding = 0\<rparr>"

definition example_trajectory :: "real dynamics" where
  "example_trajectory = init None None None None (Some [0, 1, 2]) None"


definition example_structure :: structure_t where
  "example_structure = \<lparr>get_cell = ((1, 0, 0), (0, 1, 0), (0, 0, 1)), get_number_of_atoms_st = 1,
     get_masses = (\<lambda>super_cell. replicate (nat (prod_list super_cell)) 4),
     get_number_of_dimensions = 3\<rparr>"

definition example_collaborators :: "real collaborators" where
  "example_collaborators = \<lparr>relativize_trajectory =
       (\<lambda>s. case trajectory_f s of None \<Rightarrow> Inl (SystemExit (stdout s @ [No_trajectory_loaded]))
                                | Some t \<Rightarrow> Inr t),
     gradient = (\<lambda>c dt. Inr (map (\<lambda>x. x / dt) c)), uninitialised = 0\<rparr>"

definition example_frames :: "real array3" where
  "example_frames = [[[1, 0, 0], [0, 1, 0]], [[2, 0, 0], [0, 2, 0]], [[3, 0, 0], [0, 3, 0]]]"

definition example_dynamics :: "real dynamics" where
  "example_dynamics = init (Some example_structure) (Some example_frames) (Some example_frames)
     (Some [5, 6, 7]) (Some [0, 1, 2]) (Some ((2, 0, 0), (0, 1, 0), (0, 0, 1)))"


text \<open>
  The example model after a first call of \<^verbatim>\<open>get_super_cell_matrix\<close> (with a mean
  displacement matrix cached as well), and after cropping it to its last step.
\<close>

definition example_cached :: "real dynamics" where
  "example_cached = example_dynamics\<lparr>super_cell_matrix_f := Some [2, 1, 1],
     mean_displacement_matrix_f := Some [[[1, 0, 0], [0, 1, 0], [0, 0, 1]]],
     stdout := [MD_cell_size_relation [2, 1, 1]]\<rparr>"

definition example_cropped :: "real dynamics" where
  "example_cropped = example_cached\<lparr>trajectory_f := Some [[[3, 0, 0], [0, 3, 0]]],
     energy_f := Some [7], time_f := Some [2], velocity_f := Some [[[3, 0, 0], [0, 3, 0]]],
     stdout := [MD_cell_size_relation [2, 1, 1], Using_steps 1]\<rparr>"


text \<open>
  The example model with a simulation cell of lattice-vector norms (1.4, 1.6, 2) and one
  of norms (0.004, 1, 1); the reference cell is the unit cube.
\<close>

definition example_unfit :: "real dynamics" where
  "example_unfit = set_super_cell (Some ((7 / 5, 0, 0), (0, 8 / 5, 0), (0, 0, 2))) example_dynamics"

definition example_thin :: "real dynamics" where
  "example_thin = set_super_cell (Some ((1 / 250, 0, 0), (0, 1, 0), (0, 0, 1))) example_dynamics"


text \<open>
  A solver whose spectrum grows with the coefficient count, and a fitter that fails on
  the lowest spectrum and returns half-width 1 and area scale \<open>pi\<close> otherwise; the
  covariance is a single number, its own error.
\<close>

definition example_fitting :: "(real, real) numerics" where
  "example_fitting = \<lparr>mem = (\<lambda>f c dt n. map (\<lambda>x. x + real_of_int n) f),
     curve_fit = (\<lambda>f p seed. if fst (snd (snd seed)) = 2 then None
                               else Some ((fst seed, 1, pi, 0), (fst (snd (snd seed)) - 2)\<^sup>2)),
     get_error_from_covariance = (\<lambda>c. c)\<rparr>"

definition example_scan_parameters :: parameters_t where
  "example_scan_parameters = \<lparr>frequency_range = [0, 1], number_of_coefficients_mem = 1,
     mem_scan_range = [1, 2, 3], zero_padding = 0\<rparr>"

text \<open>
  A two-mode matrix whose second mode is identically zero, with a solver that scales the
  spectrum by the first sample of the mode and a fitter that fails on spectra of height at
  most 2: the first mode has two successful candidates in the scan range [1, 2, 3], the
  second mode has none.
\<close>

definition example_mixed_fitting :: "(real, real) numerics" where
  "example_mixed_fitting = \<lparr>mem = (\<lambda>f c dt n. map (\<lambda>x. (x + real_of_int n) * hd c) f),
     curve_fit = (\<lambda>f p seed. if fst (snd (snd seed)) \<le> 2 then None
                               else Some ((fst seed, 1, pi, 0), (fst (snd (snd seed)) - 2)\<^sup>2)),
     get_error_from_covariance = (\<lambda>c. c)\<rparr>"

definition example_mixed_vq :: "real ndarray" where
  "example_mixed_vq = \<lparr>shape1 = 2, rows = [[1, 0], [2, 0], [3, 0]]\<rparr>"

text \<open>
  The example model with a simulation cell of 2097152 = 2^21 unit cells along each axis,
  and the scan range [2, 0], whose last entry is 0.
\<close>

definition example_large :: "real dynamics" where
  "example_large =
     set_super_cell (Some ((2097152, 0, 0), (0, 2097152, 0), (0, 0, 2097152))) example_dynamics"

definition example_zero_range :: parameters_t where
  "example_zero_range = \<lparr>frequency_range = [0, 1], number_of_coefficients_mem = 1,
     mem_scan_range = [2, 0], zero_padding = 0\<rparr>"

section \<open>Properties of the class Dynamics\<close>

subsection \<open>Average time step\<close>

lemma fold_add_sum:
  "fold (\<lambda>i acc. acc + f i) [0..<n] (a::real) = a + (\<Sum>i<n. f i)"
  by (induction n arbitrary: a) (simp_all add: add.assoc)

lemma time_step_loop_sum:
  "time_step_loop t = (\<Sum>i<length t - 1. (t ! (i + 1) - t ! i) / (real (length t) - 1))"
  unfolding time_step_loop_def by (simp add: fold_add_sum)

lemma time_step_loop_uniform:
  assumes "2 \<le> length t" and "\<forall>i. i + 1 < length t \<longrightarrow> t ! (i + 1) - t ! i = d"
  shows "time_step_loop t = d"
proof -
  have "time_step_loop t = (\<Sum>i<length t - 1. d / (real (length t) - 1))"
    unfolding time_step_loop_sum using assms(2) by (intro sum.cong) auto
  also have "\<dots> = d"
    using assms(1) by (simp add: of_nat_diff)
  finally show ?thesis .
qed

lemma time_step_loop_telescope:
  assumes "2 \<le> length t"
  shows "time_step_loop t = (t ! (length t - 1) - t ! 0) / (real (length t) - 1)"
proof -
  have tel: "(\<Sum>i<n. (t ! (i + 1) - t ! i)) = t ! n - t ! 0" for n
    by (induction n) simp_all
  have "time_step_loop t = (\<Sum>i<length t - 1. (t ! (i + 1) - t ! i)) / (real (length t) - 1)"
    unfolding time_step_loop_sum by (simp add: sum_divide_distrib)
  then show ?thesis using tel[of "length t - 1"] by simp
qed

text \<open>
  Claim C10.  On a model whose average time step is not cached yet (None, or the falsy
  value 0) and whose time series has N \<ge> 2 samples with constant step d,
  \<^verbatim>\<open>get_time_step_average\<close> returns d, whatever N is, and caches it; d is the telescoped
  quotient (t[N-1] - t[0]) / (N - 1).  Exact arithmetic over the reals.
\<close>

theorem get_time_step_average_uniform:
  assumes "time_f s = Some t" and "2 \<le> length t"
    and "\<forall>i. i + 1 < length t \<longrightarrow> t ! (i + 1) - t ! i = d"
    and "time_step_average_f s = None \<or> time_step_average_f s = Some 0"
  shows "get_time_step_average s = Inr (d, s\<lparr>time_step_average_f := Some d\<rparr>)
       \<and> d = (t ! (length t - 1) - t ! 0) / (real (length t) - 1)"
  using assms time_step_loop_uniform[OF assms(2,3)] time_step_loop_telescope[OF assms(2)]
  by (auto simp add: get_time_step_average_def)

theorem get_time_step_average_uniform_witness:
  "time_f (init None None None None (Some [0, 1/2, 1]) None :: real dynamics) = Some [0, 1/2, 1]
   \<and> 2 \<le> length [0, 1/2, 1 :: real]
   \<and> [0, 1/2, 1 :: real] ! 1 - [0, 1/2, 1] ! 0 = 1/2
   \<and> [0, 1/2, 1 :: real] ! 2 - [0, 1/2, 1] ! 1 = 1/2
   \<and> time_step_average_f (init None None None None (Some [0, 1/2, 1]) None :: real dynamics) = None
   \<and> get_time_step_average (init None None None None (Some [0, 1/2, 1]) None :: real dynamics)
       = Inr (1/2, (init None None None None (Some [0, 1/2, 1]) None)\<lparr>time_step_average_f := Some (1/2)\<rparr>)"
proof -
  let ?s = "init None None None None (Some [0, 1/2, 1]) None :: real dynamics"
  have a: "time_f ?s = Some [0, 1/2, 1]" by (simp add: init_def)
  have b: "2 \<le> length [0, 1/2, 1 :: real]" by simp
  have c: "\<forall>i. i + 1 < length [0, 1/2, 1 :: real] \<longrightarrow> [0, 1/2, 1 :: real] ! (i + 1) - [0, 1/2, 1] ! i = 1/2"
    by (auto simp: less_Suc_eq nth_Cons')
  have d: "time_step_average_f ?s = None \<or> time_step_average_f ?s = Some 0" by (simp add: init_def)
  from get_time_step_average_uniform[OF a b c d] a b c d show ?thesis
    by (simp add: init_def)
qed

section \<open>Properties of the module power_spectrum\<close>

subsection \<open>The Maximum-Entropy entry point\<close>


lemma bindE_Inr_iff: "bindE m f = Inr y \<longleftrightarrow> (\<exists>x. m = Inr x \<and> f x = Inr y)"
  by (cases m) (simp_all add: bindE_def)

lemma bindE_Inl_iff: "bindE m f = Inl e \<longleftrightarrow> (m = Inl e \<or> (\<exists>x. m = Inr x \<and> f x = Inl e))"
  by (cases m) (simp_all add: bindE_def)

lemma bindE_simps [simp]: "bindE (Inr x) f = f x" "bindE (Inl e) f = Inl e"
  by (simp_all add: bindE_def)

lemma foldE_append:
  "foldE f (xs @ ys) s = bindE (foldE f xs s) (foldE f ys)"
  by (induction xs arbitrary: s) (simp_all split: sum.splits)

lemma foldE_error_class:
  assumes "\<And>i s. i \<in> set xs \<Longrightarrow> f i s \<noteq> Inl e"
  shows "foldE f xs s \<noteq> Inl e"
  using assms by (induction xs arbitrary: s) (auto split: sum.splits)

lemma get_time_step_average_error:
  "get_time_step_average s = Inl e \<Longrightarrow> e = TypeError"
  by (auto simp: get_time_step_average_def Let_def split: if_splits option.splits)

lemma get_time_step_average_print:
  "get_time_step_average (print m s) =
     (case get_time_step_average s of Inl e \<Rightarrow> Inl e | Inr (d, s') \<Rightarrow> Inr (d, print m s'))"
  by (auto simp: get_time_step_average_def print_def Let_def split: option.splits)

lemma get_time_step_average_fixed:
  "get_time_step_average s = Inr (d, s1) \<Longrightarrow> get_time_step_average s1 = Inr (d, s1)"
  by (auto simp: get_time_step_average_def Let_def split: if_splits option.splits)

lemma progress_bar_print: "\<exists>m. progress_bar p l s = print m s"
  by (auto simp: progress_bar_def Let_def split: if_splits)

lemma get_time_step_average_progress:
  assumes "get_time_step_average s = Inr (d, s)"
  shows "get_time_step_average (progress_bar p l s) = Inr (d, progress_bar p l s)"
proof -
  obtain m where m: "progress_bar p l s = print m s" using progress_bar_print by blast
  show ?thesis unfolding m get_time_step_average_print using assms by simp
qed

lemma get_mode_error: "get_mode vq i = Inl e \<Longrightarrow> e = IndexError"
  by (auto simp: get_mode_def split: if_splits)

lemma mem_spectra_step_no_exit: "mem_spectra_step env vq par i st \<noteq> Inl (SystemExit out)"
  by (cases st) (auto simp: mem_spectra_step_def bindE_Inl_iff
      dest: get_mode_error get_time_step_average_error)

lemma mem_spectra_loop:
  assumes "get_time_step_average t = Inr (dt, t1)"
    and "\<forall>i \<in> set is. i < shape1 vq"
    and "\<forall>r \<in> set (rows vq). length r = shape1 vq"
  shows "\<exists>t'. foldE (mem_spectra_step env vq par) is (psd, t) =
           Inr (psd @ map (\<lambda>i. mem env (frequency_range par) (map (\<lambda>r. r ! i) (rows vq)) dt
                                  (number_of_coefficients_mem par)) is, t')"
  using assms(1,2)
proof (induction "is" arbitrary: psd t t1)
  case Nil
  then show ?case by simp
next
  case (Cons i "is")
  have c: "get_mode vq i = Inr (map (\<lambda>r. r ! i) (rows vq))"
    using Cons.prems(2) assms(3) by (simp add: get_mode_def)
  let ?t1 = "progress_bar (real (i + 1) / real (shape1 vq)) ''M. Entropy'' t1"
  let ?sp = "mem env (frequency_range par) (map (\<lambda>r. r ! i) (rows vq)) dt (number_of_coefficients_mem par)"
  have step: "mem_spectra_step env vq par i (psd, t) = Inr (psd @ [?sp], ?t1)"
    using c Cons.prems(1) by (simp add: mem_spectra_step_def)
  have inv: "get_time_step_average ?t1 = Inr (dt, ?t1)"
    by (rule get_time_step_average_progress[OF get_time_step_average_fixed[OF Cons.prems(1)]])
  from Cons.IH[OF inv, of "psd @ [?sp]"] Cons.prems(2)
  show ?case using step by simp
qed

lemma transpose_spectra:
  assumes "0 < n" and "\<forall>i < n. length (f i) = m"
  shows "transpose (map f [0..<n]) = map (\<lambda>j. map (\<lambda>i. f i ! j) [0..<n]) [0..<m]"
proof -
  have "transpose (map f [0..<n]) =
        map (\<lambda>j. map (\<lambda>i. map f [0..<n] ! i ! j) [0..<length (map f [0..<n])]) [0..<m]"
    by (rule transpose_rectangle) (use assms in auto)
  also have "\<dots> = map (\<lambda>j. map (\<lambda>i. f i ! j) [0..<n]) [0..<m]"
    by (auto intro!: map_cong)
  finally show ?thesis .
qed

text \<open>
  Claim C7.  \<^verbatim>\<open>get_mem_spectra_par_openmp\<close> exits with the diagnostic, before any
  spectrum is computed, exactly when the coefficient count is not strictly less than the
  number of time samples minus one.  Otherwise, on a well-shaped mode matrix and a model
  whose time step is available, it returns the spectra of the mode columns, one per
  column, transposed and scaled by the unit conversion.
\<close>

theorem get_mem_spectra_par_openmp_check:
  "((\<exists>out. get_mem_spectra_par_openmp env vq trajectory par = Inl (SystemExit out))
       \<longleftrightarrow> \<not> (number_of_coefficients_mem par < int (shape0 vq) - 1))
   \<and> (\<not> (number_of_coefficients_mem par < int (shape0 vq) - 1) \<longrightarrow>
        get_mem_spectra_par_openmp env vq trajectory par =
          Inl (SystemExit (stdout trajectory @ [Number_of_coefficients_too_large])))
   \<and> (number_of_coefficients_mem par < int (shape0 vq) - 1
        \<and> get_time_step_average trajectory = Inr (dt, t1)
        \<and> (\<forall>r \<in> set (rows vq). length r = shape1 vq) \<longrightarrow>
        (\<exists>t'. get_mem_spectra_par_openmp env vq trajectory par =
           Inr (map (map (\<lambda>x. x * unit_conversion))
                  (array_T (map (\<lambda>i. mem env (frequency_range par) (map (\<lambda>r. r ! i) (rows vq)) dt
                                        (number_of_coefficients_mem par)) [0..<shape1 vq])), t')))
   \<and> (0 < shape1 vq
        \<and> (\<forall>i < shape1 vq. length (mem env (frequency_range par) (map (\<lambda>r. r ! i) (rows vq)) dt
                                        (number_of_coefficients_mem par)) = length (frequency_range par)) \<longrightarrow>
        map (map (\<lambda>x. x * unit_conversion))
          (array_T (map (\<lambda>i. mem env (frequency_range par) (map (\<lambda>r. r ! i) (rows vq)) dt
                                 (number_of_coefficients_mem par)) [0..<shape1 vq]))
        = map (\<lambda>j. map (\<lambda>i. mem env (frequency_range par) (map (\<lambda>r. r ! i) (rows vq)) dt
                                 (number_of_coefficients_mem par) ! j * unit_conversion) [0..<shape1 vq])
            [0..<length (frequency_range par)])"
proof (intro conjI impI)
  have noexit: "foldE (mem_spectra_step env vq par) [0..<shape1 vq] st \<noteq> Inl (SystemExit out)" for st out
    by (rule foldE_error_class) (rule mem_spectra_step_no_exit)
  then show "(\<exists>out. get_mem_spectra_par_openmp env vq trajectory par = Inl (SystemExit out))
       \<longleftrightarrow> \<not> (number_of_coefficients_mem par < int (shape0 vq) - 1)"
    by (auto simp: get_mem_spectra_par_openmp_def bindE_Inl_iff)
next
  assume "\<not> (number_of_coefficients_mem par < int (shape0 vq) - 1)"
  then show "get_mem_spectra_par_openmp env vq trajectory par =
          Inl (SystemExit (stdout trajectory @ [Number_of_coefficients_too_large]))"
    by (simp add: get_mem_spectra_par_openmp_def)
next
  assume a: "number_of_coefficients_mem par < int (shape0 vq) - 1
        \<and> get_time_step_average trajectory = Inr (dt, t1)
        \<and> (\<forall>r \<in> set (rows vq). length r = shape1 vq)"
  obtain m where m: "progress_bar 0 ''M. Entropy'' trajectory = print m trajectory"
    using progress_bar_print by blast
  have g: "get_time_step_average (progress_bar 0 ''M. Entropy'' trajectory) = Inr (dt, print m t1)"
    unfolding m get_time_step_average_print using a by simp
  from mem_spectra_loop[OF g, of "[0..<shape1 vq]" vq env par "[]"] a
  obtain t' where "foldE (mem_spectra_step env vq par) [0..<shape1 vq]
        ([], progress_bar 0 ''M. Entropy'' trajectory) =
      Inr (map (\<lambda>i. mem env (frequency_range par) (map (\<lambda>r. r ! i) (rows vq)) dt
                                  (number_of_coefficients_mem par)) [0..<shape1 vq], t')"
    by auto
  then show "\<exists>t'. get_mem_spectra_par_openmp env vq trajectory par =
           Inr (map (map (\<lambda>x. x * unit_conversion))
                  (array_T (map (\<lambda>i. mem env (frequency_range par) (map (\<lambda>r. r ! i) (rows vq)) dt
                                        (number_of_coefficients_mem par)) [0..<shape1 vq])), t')"
    using a by (simp add: get_mem_spectra_par_openmp_def)
next
  assume b: "0 < shape1 vq
        \<and> (\<forall>i < shape1 vq. length (mem env (frequency_range par) (map (\<lambda>r. r ! i) (rows vq)) dt
                                        (number_of_coefficients_mem par)) = length (frequency_range par))"
  show "map (map (\<lambda>x. x * unit_conversion))
          (array_T (map (\<lambda>i. mem env (frequency_range par) (map (\<lambda>r. r ! i) (rows vq)) dt
                                 (number_of_coefficients_mem par)) [0..<shape1 vq]))
        = map (\<lambda>j. map (\<lambda>i. mem env (frequency_range par) (map (\<lambda>r. r ! i) (rows vq)) dt
                                 (number_of_coefficients_mem par) ! j * unit_conversion) [0..<shape1 vq])
            [0..<length (frequency_range par)]"
    unfolding array_T_def
    by (subst transpose_spectra[where m = "length (frequency_range par)"]) (use b in \<open>simp_all add: comp_def\<close>)
qed

lemma example_time_step:
  "get_time_step_average example_trajectory =
     Inr (1, example_trajectory\<lparr>time_step_average_f := Some 1\<rparr>)"
proof -
  have "time_step_loop [0, 1, 2] = 1"
    by (rule time_step_loop_uniform) (auto simp: less_Suc_eq nth_Cons')
  then show ?thesis
    by (simp add: get_time_step_average_def example_trajectory_def init_def)
qed

theorem get_mem_spectra_par_openmp_check_witness:
  "(\<exists>t'. get_mem_spectra_par_openmp example_numerics example_vq example_trajectory example_parameters
           = Inr ([[1 * unit_conversion], [2 * unit_conversion]], t'))
   \<and> get_mem_spectra_par_openmp example_numerics example_vq example_trajectory
        (example_parameters\<lparr>number_of_coefficients_mem := 2\<rparr>)
       = Inl (SystemExit [Number_of_coefficients_too_large])"
proof -
  have up: "[0..<Suc 0] = [0]" "[0..<2] = [0, 1]" by (simp_all add: upt_rec)
  note t1 = get_mem_spectra_par_openmp_check[of example_numerics example_vq example_trajectory
      example_parameters 1 "example_trajectory\<lparr>time_step_average_f := Some 1\<rparr>"]
  note t2 = get_mem_spectra_par_openmp_check[of example_numerics example_vq example_trajectory
      "example_parameters\<lparr>number_of_coefficients_mem := 2\<rparr>" 1 example_trajectory]
  have a: "number_of_coefficients_mem example_parameters < int (shape0 example_vq) - 1"
    by (simp add: example_parameters_def example_vq_def shape0_def)
  have b: "\<forall>r \<in> set (rows example_vq). length r = shape1 example_vq"
    by (simp add: example_vq_def)
  have c: "0 < shape1 example_vq" by (simp add: example_vq_def)
  have d: "\<forall>i < shape1 example_vq. length (mem example_numerics (frequency_range example_parameters)
        (map (\<lambda>r. r ! i) (rows example_vq)) 1 (number_of_coefficients_mem example_parameters))
        = length (frequency_range example_parameters)"
    by (simp add: example_numerics_def)
  have e: "map (\<lambda>j. map (\<lambda>i. mem example_numerics (frequency_range example_parameters)
        (map (\<lambda>r. r ! i) (rows example_vq)) 1 (number_of_coefficients_mem example_parameters) ! j
          * unit_conversion) [0..<shape1 example_vq]) [0..<length (frequency_range example_parameters)]
        = [[1 * unit_conversion], [2 * unit_conversion]]"
    by (simp add: example_numerics_def example_parameters_def example_vq_def up)
  have f: "\<not> (number_of_coefficients_mem (example_parameters\<lparr>number_of_coefficients_mem := 2\<rparr>)
              < int (shape0 example_vq) - 1)"
    by (simp add: example_vq_def shape0_def)
  have g: "stdout example_trajectory = []" by (simp add: example_trajectory_def init_def)
  from t1 a b c d e example_time_step
  have "\<exists>t'. get_mem_spectra_par_openmp example_numerics example_vq example_trajectory example_parameters
           = Inr ([[1 * unit_conversion], [2 * unit_conversion]], t')"
    by metis
  moreover from t2 f g
  have "get_mem_spectra_par_openmp example_numerics example_vq example_trajectory
        (example_parameters\<lparr>number_of_coefficients_mem := 2\<rparr>)
       = Inl (SystemExit [Number_of_coefficients_too_large])"
    by simp
  ultimately show ?thesis by blast
qed


section \<open>Cropping the trajectory\<close>

lemma slice_from_zero: "slice_from 0 xs = xs"
  by (simp add: slice_from_def)

lemma slice_from_neg:
  "0 < n \<Longrightarrow> slice_from (- n) xs = drop (length xs - nat n) xs"
  by (auto simp: slice_from_def Let_def max_def nat_diff_distrib' intro: arg_cong2[where f = drop])

lemma velocity_sets_field:
  "velocity env s = Inr (v, s1) \<Longrightarrow> velocity_f s1 = Some v"
  by (auto simp: velocity_def bindE_Inr_iff split: option.splits)

lemma velocity_present: "velocity_f s = Some v \<Longrightarrow> velocity env s = Inr (v, s)"
  by (simp add: velocity_def)

lemma crop_trajectory_Inr:
  assumes "crop_trajectory env (Some n) s = Inr s'" and "0 \<le> n"
  shows "\<exists>v s4. velocity env (crop_stored n s) = Inr (v, s4) \<and>
           s' = print (Using_steps (length (slice_from (- n) v)))
                  ((if n > int (length v) then print Warning_step_number_larger s4 else s4)
                     \<lparr>velocity_f := Some (slice_from (- n) v),
                      velocity_mass_average_f := None, relative_trajectory_f := None\<rparr>)"
proof -
  from assms obtain v s4 where v: "velocity env (crop_stored n s) = Inr (v, s4)"
    by (auto simp: crop_trajectory_def bindE_Inr_iff)
  let ?s5 = "if n > int (length v) then print Warning_step_number_larger s4 else s4"
  have f5: "velocity_f ?s5 = Some v"
    using velocity_sets_field[OF v] by (simp add: print_def)
  let ?s7 = "?s5\<lparr>velocity_f := Some (slice_from (- n) v),
                      velocity_mass_average_f := None, relative_trajectory_f := None\<rparr>"
  have v5: "velocity env ?s5 = Inr (v, ?s5)" by (rule velocity_present[OF f5])
  have v7: "velocity env ?s7 = Inr (slice_from (- n) v, ?s7)" by (rule velocity_present) simp
  from assms v v5 v7 have "s' = print (Using_steps (length (slice_from (- n) v))) ?s7"
    by (simp add: crop_trajectory_def Let_def)
  with v show ?thesis by blast
qed

text \<open>
  Claim C2, evaluated at last_steps = 0 on a model that holds three samples of
  trajectory, velocity, energy and time: the slice \<^verbatim>\<open>[-0:]\<close> is the whole array, so
  the call keeps all three samples of each series (and reports ``Using 3 steps''), where
  the claim asks for exactly the last 0 samples.
\<close>

theorem crop_trajectory_zero_keeps_everything:
  "crop_trajectory example_collaborators (Some 0) example_dynamics
     = Inr (example_dynamics\<lparr>stdout := [Using_steps 3]\<rparr>)
   \<and> trajectory_f example_dynamics = Some example_frames
   \<and> velocity_f example_dynamics = Some example_frames
   \<and> energy_f example_dynamics = Some [5, 6, 7]
   \<and> time_f example_dynamics = Some [0, 1, 2]
   \<and> length example_frames = 3"
  by (simp add: crop_trajectory_def crop_stored_def example_dynamics_def init_def velocity_def slice_from_zero
      print_def example_frames_def)

text \<open>Frame lemmas: a cached supercell matrix survives every accessor.\<close>

lemma foldE_invariant:
  assumes "foldE f xs s = Inr s'" and "P s"
    and "\<And>i a b. f i a = Inr b \<Longrightarrow> P a \<Longrightarrow> P b"
  shows "P s'"
  using assms(1,2)
proof (induction xs arbitrary: s)
  case Nil
  then show ?case by simp
next
  case (Cons i xs)
  then show ?case by (auto split: sum.splits intro: assms(3))
qed

lemma get_time_step_average_frame:
  "get_time_step_average s = Inr (d, s1) \<Longrightarrow>
     super_cell_matrix_f s1 = super_cell_matrix_f s"
  by (auto simp: get_time_step_average_def Let_def split: if_splits option.splits)

lemma get_relative_trajectory_frame:
  "get_relative_trajectory env s = Inr (r, s1) \<Longrightarrow>
     super_cell_matrix_f s1 = super_cell_matrix_f s"
  by (auto simp: get_relative_trajectory_def bindE_Inr_iff split: option.splits)

lemma get_super_cell_matrix_cached:
  "super_cell_matrix_f s = Some m \<Longrightarrow> get_super_cell_matrix tolerance s = Inr (m, s)"
  by (simp add: get_super_cell_matrix_def)

lemma get_number_of_atoms_frame:
  "get_number_of_atoms s = Inr (n, s1) \<Longrightarrow> super_cell_matrix_f s = Some m \<Longrightarrow>
     super_cell_matrix_f s1 = Some m"
  by (auto simp: get_number_of_atoms_def bindE_Inr_iff get_super_cell_matrix_cached Let_def
      split: option.splits if_splits)

lemma velocity_step_frame:
  "velocity_step env i j s = Inr s1 \<Longrightarrow> super_cell_matrix_f s1 = super_cell_matrix_f s"
  by (auto simp: velocity_step_def bindE_Inr_iff split: option.splits
      dest!: get_relative_trajectory_frame get_time_step_average_frame)

lemma velocity_frame:
  assumes "velocity env s = Inr (v, s1)" and "super_cell_matrix_f s = Some m"
  shows "super_cell_matrix_f s1 = Some m"
proof (cases "velocity_f s")
  case (Some a)
  with assms show ?thesis by (simp add: velocity_def)
next
  case None
  with assms(1) obtain rel t1 n t2 where
    r: "get_relative_trajectory env (print No_velocity_provided s) = Inr (rel, t1)" and
    n: "get_number_of_atoms (t1\<lparr>velocity_f := Some (zeros_like rel)\<rparr>) = Inr (n, t2)" and
    l: "foldE (\<lambda>i st. case structure_f st of None \<Rightarrow> Inl AttributeError
           | Some str \<Rightarrow> foldE (velocity_step env i) (range_py (get_number_of_dimensions str)) st)
          (range_py n) t2 = Inr s1"
    by (auto simp: velocity_def bindE_Inr_iff split: option.splits)
  have "super_cell_matrix_f t1 = Some m"
    using get_relative_trajectory_frame[OF r] assms(2) by (simp add: print_def)
  then have "super_cell_matrix_f t2 = Some m"
    using get_number_of_atoms_frame[OF n] by simp
  then show ?thesis
  proof (rule foldE_invariant[OF l])
    fix i a b
    assume "(case structure_f a of None \<Rightarrow> Inl AttributeError
           | Some str \<Rightarrow> foldE (velocity_step env i) (range_py (get_number_of_dimensions str)) a) = Inr b"
      and a: "super_cell_matrix_f a = Some m"
    then obtain str :: structure_t
      where "foldE (velocity_step env i) (range_py (get_number_of_dimensions str)) a = Inr b"
      by (auto split: option.splits)
    then show "super_cell_matrix_f b = Some m"
      by (rule foldE_invariant) (use a in \<open>auto dest: velocity_step_frame\<close>)
  qed
qed

lemma crop_stored_frame: "super_cell_matrix_f (crop_stored n s) = super_cell_matrix_f s"
  by (simp add: crop_stored_def Let_def print_def split: option.splits)

text \<open>
  Claim C3, as amended.  A call of \<^verbatim>\<open>crop_trajectory\<close> with last_steps \<ge> 0 that
  returns leaves the caches of the mass-weighted velocity and of the relative trajectory
  empty, so that \<^verbatim>\<open>get_relative_trajectory\<close> calls the collaborator on the cropped
  model and the mass-weighted velocity is next derived from the cropped velocity; a cached
  supercell matrix is kept, and \<^verbatim>\<open>get_super_cell_matrix\<close> goes on returning it.
\<close>

theorem crop_trajectory_invalidates:
  assumes "crop_trajectory env (Some n) s = Inr s'" and "0 \<le> n"
  shows "velocity_mass_average_f s' = None \<and> relative_trajectory_f s' = None
       \<and> get_relative_trajectory env s' =
           bindE (relativize_trajectory env s') (\<lambda>r. Inr (r, s'\<lparr>relative_trajectory_f := Some r\<rparr>))
       \<and> (\<exists>v. velocity_f s' = Some (slice_from (- n) v) \<and> (\<forall>v0. velocity_f s = Some v0 \<longrightarrow> v = v0))
       \<and> (\<forall>m. super_cell_matrix_f s = Some m \<longrightarrow>
             super_cell_matrix_f s' = Some m \<and> get_super_cell_matrix tolerance s' = Inr (m, s'))"
proof -
  from crop_trajectory_Inr[OF assms] obtain v s4 where
    v: "velocity env (crop_stored n s) = Inr (v, s4)" and
    s': "s' = print (Using_steps (length (slice_from (- n) v)))
                  ((if n > int (length v) then print Warning_step_number_larger s4 else s4)
                     \<lparr>velocity_f := Some (slice_from (- n) v),
                      velocity_mass_average_f := None, relative_trajectory_f := None\<rparr>)"
    by blast
  have a: "velocity_mass_average_f s' = None" "relative_trajectory_f s' = None"
    "velocity_f s' = Some (slice_from (- n) v)"
    by (simp_all add: s' print_def)
  have b: "get_relative_trajectory env s' =
           bindE (relativize_trajectory env s') (\<lambda>r. Inr (r, s'\<lparr>relative_trajectory_f := Some r\<rparr>))"
    using a(2) by (simp add: get_relative_trajectory_def)
  have c: "v = v0" if "velocity_f s = Some v0" for v0
  proof -
    have "velocity_f (crop_stored n s) = Some v0"
      using that by (simp add: crop_stored_def Let_def print_def split: option.splits)
    from velocity_present[OF this, of env] v show ?thesis by simp
  qed
  have d: "super_cell_matrix_f s' = Some m \<and> get_super_cell_matrix tolerance s' = Inr (m, s')"
    if "super_cell_matrix_f s = Some m" for m
  proof -
    have "super_cell_matrix_f s4 = Some m"
      using velocity_frame[OF v] that by (simp add: crop_stored_frame)
    then have "super_cell_matrix_f s' = Some m" by (simp add: s' print_def)
    then show ?thesis by (simp add: get_super_cell_matrix_cached)
  qed
  from a b c d show ?thesis by blast
qed


lemma linalg_norm_axis:
  "linalg_norm [a, 0, 0] = \<bar>a\<bar>" "linalg_norm [0, a, 0] = \<bar>a\<bar>" "linalg_norm [0, 0, a] = \<bar>a\<bar>"
  by (simp_all add: linalg_norm_def)

lemma parameters_diagonal:
  "parameters ((a, 0, 0), (0, b, 0), (0, 0, c)) = [\<bar>a\<bar>, \<bar>b\<bar>, \<bar>c\<bar>]"
  by (simp add: linalg_norm_axis)

lemma around_of_int: "around (of_int k) = k"
  by (simp add: around_def)

lemma around_numeral [simp]: "around (numeral k) = numeral k" "around 1 = 1" "around 0 = 0"
  using around_of_int[of "numeral k"] around_of_int[of 1] around_of_int[of 0] by simp_all

lemma astype_int_id: "- (2 ^ 63) \<le> k \<Longrightarrow> k < 2 ^ 63 \<Longrightarrow> astype_int k = k"
  by (simp add: astype_int_def)

lemma int64_id: "- (2 ^ 63) \<le> k \<Longrightarrow> k < 2 ^ 63 \<Longrightarrow> int64 k = k"
  by (simp add: int64_def)

lemma int64_mult: "int64 (c * int64 p) = int64 (c * p)"
proof -
  have "(c * ((p + 2 ^ 63) mod 2 ^ 64 - 2 ^ 63) + 2 ^ 63) mod 2 ^ 64
      = (c * (p + 2 ^ 63 - 2 ^ 63) + 2 ^ 63) mod (2 ^ 64 :: int)"
    by (intro mod_add_cong mod_mult_cong mod_diff_cong refl mod_mod_trivial)
  then show ?thesis by (simp add: int64_def)
qed

lemma example_super_cell_matrix:
  "get_super_cell_matrix default_tolerance example_dynamics =
     Inr ([2, 1, 1], example_dynamics\<lparr>super_cell_matrix_f := Some [2, 1, 1],
                       stdout := [MD_cell_size_relation [2, 1, 1]]\<rparr>)"
  by (simp add: get_super_cell_matrix_def example_dynamics_def init_def example_structure_def
      parameters_diagonal divide_arrays_def cell_fit_def default_tolerance_def print_def Let_def
      astype_int_def del: parameters.simps)

lemma example_crop:
  "crop_trajectory example_collaborators (Some 1) example_cached = Inr example_cropped"
  by (simp add: crop_trajectory_def crop_stored_def example_cached_def example_cropped_def
      example_dynamics_def init_def velocity_def slice_from_def print_def example_frames_def)

text \<open>
  Claim C3 as stated fails: cropping the example model from three samples to one leaves
  the cached supercell matrix and the cached mean displacement matrix in place, and
  \<^verbatim>\<open>get_super_cell_matrix\<close> returns the cached vector without recomputing (the model,
  console output included, is unchanged by the call).
\<close>

theorem crop_trajectory_keeps_super_cell_matrix:
  "crop_trajectory example_collaborators (Some 1) example_cached = Inr example_cropped
   \<and> trajectory_f example_cached = Some example_frames \<and> length example_frames = 3
   \<and> trajectory_f example_cropped = Some [[[3, 0, 0], [0, 3, 0]]]
   \<and> super_cell_matrix_f example_cached = Some [2, 1, 1]
   \<and> super_cell_matrix_f example_cropped = Some [2, 1, 1]
   \<and> mean_displacement_matrix_f example_cropped = mean_displacement_matrix_f example_cached
   \<and> mean_displacement_matrix_f example_cropped \<noteq> None
   \<and> get_super_cell_matrix default_tolerance example_cropped = Inr ([2, 1, 1], example_cropped)"
  by (simp add: crop_trajectory_def crop_stored_def example_cached_def example_cropped_def
      example_dynamics_def init_def velocity_def slice_from_def print_def example_frames_def
      get_super_cell_matrix_def)

theorem crop_trajectory_invalidates_witness:
  "crop_trajectory example_collaborators (Some 1) example_cached = Inr example_cropped
   \<and> velocity_mass_average_f example_cropped = None
   \<and> relative_trajectory_f example_cropped = None
   \<and> velocity_f example_cropped = Some (slice_from (- 1) example_frames)
   \<and> super_cell_matrix_f example_cropped = Some [2, 1, 1]"
proof -
  have n: "(0::int) \<le> 1" by simp
  have c: "super_cell_matrix_f example_cached = Some [2, 1, 1]"
    by (simp add: example_cached_def)
  have v: "velocity_f example_cached = Some example_frames"
    by (simp add: example_cached_def example_dynamics_def init_def)
  from crop_trajectory_invalidates[OF example_crop n, of default_tolerance] c v example_crop
  show ?thesis by auto
qed


section \<open>The supercell matrix and the number of atoms\<close>

lemma around_nonneg: "0 \<le> x \<Longrightarrow> 0 \<le> around x"
  by (auto simp: around_def Let_def)

lemma around_pos: "1 / 2 < x \<Longrightarrow> 0 < around x"
proof -
  assume x: "1 / 2 < x"
  then have f: "0 \<le> \<lfloor>x\<rfloor>" by simp
  show ?thesis
  proof (cases "\<lfloor>x\<rfloor> = 0")
    case True
    with x show ?thesis by (simp add: around_def)
  next
    case False
    with f have "0 < \<lfloor>x\<rfloor>" by linarith
    then show ?thesis by (auto simp: around_def Let_def)
  qed
qed

lemma linalg_norm_nonneg: "0 \<le> linalg_norm v"
  unfolding linalg_norm_def by (intro real_sqrt_ge_zero sum_list_nonneg) auto

lemma parameters_nonneg: "x \<in> set (parameters h) \<Longrightarrow> 0 \<le> x"
  by (cases h rule: parameters.cases) (auto simp: linalg_norm_nonneg)

lemma length_parameters: "length (parameters h) = 3"
  by (cases h rule: parameters.cases) simp

lemma divide_arrays_nonneg:
  assumes "x \<in> set (divide_arrays (parameters a) (parameters b))"
  shows "0 \<le> x"
proof -
  from assms obtain p q where "x = p / q" "p \<in> set (parameters a)" "q \<in> set (parameters b)"
    by (auto simp: divide_arrays_def dest: set_zip_leftD set_zip_rightD)
  then show ?thesis using parameters_nonneg by simp
qed

lemma get_super_cell_matrix_computed:
  assumes "super_cell_matrix_f s = None" "super_cell_f s = Some sc" "structure_f s = Some st"
  shows "get_super_cell_matrix tolerance s =
     (let r = divide_arrays (parameters sc) (parameters (get_cell st));
          m = map (\<lambda>x. astype_int (around x)) r
      in if cell_fit m r > tolerance
         then Inl (SystemExit (stdout s @ [Fit_value (cell_fit m r), Warning_cells_do_not_fit,
                                            Cell_relation_not_integer r]))
         else Inr (m, print (MD_cell_size_relation m) (s\<lparr>super_cell_matrix_f := Some m\<rparr>)))"
  using assms by (simp add: get_super_cell_matrix_def Let_def)

lemma around_le: "real_of_int (around x) \<le> x + 1 / 2"
  by (auto simp: around_def Let_def; linarith)

lemma astype_int_around:
  assumes "0 \<le> x"
  shows "real_of_int (astype_int (around x)) \<le> x + 1 / 2"
    and "real_of_int (astype_int (around x)) \<le> 2 ^ 63 - 1"
    and "2 ^ 63 \<le> around x \<Longrightarrow> real_of_int (astype_int (around x)) \<le> x + 1 / 2 - 2 ^ 64"
proof -
  have n: "0 \<le> around x" using assms by (rule around_nonneg)
  show "real_of_int (astype_int (around x)) \<le> x + 1 / 2"
    using around_le[of x] n assms by (auto simp: astype_int_def)
  have "astype_int (around x) \<le> 2 ^ 63 - 1" by (simp add: astype_int_def)
  then have "real_of_int (astype_int (around x)) \<le> real_of_int (2 ^ 63 - 1)"
    by (rule of_int_le_iff[THEN iffD2])
  then show "real_of_int (astype_int (around x)) \<le> 2 ^ 63 - 1" by simp
  assume big: "2 ^ 63 \<le> around x"
  then have "real_of_int (2 ^ 63) \<le> real_of_int (around x)" by (rule of_int_le_iff[THEN iffD2])
  then have "2 ^ 63 \<le> x + 1 / 2" using around_le[of x] by simp
  moreover have "astype_int (around x) = - (2 ^ 63)" using big by (simp add: astype_int_def)
  ultimately show "real_of_int (astype_int (around x)) \<le> x + 1 / 2 - 2 ^ 64" by simp
qed

lemma linalg_norm_le_sum:
  assumes "0 \<le> a" "0 \<le> b" "0 \<le> c"
  shows "linalg_norm [a, b, c] \<le> a + b + c"
proof -
  have "0 \<le> a * b" "0 \<le> a * c" "0 \<le> b * c" using assms by simp_all
  then have "a\<^sup>2 + b\<^sup>2 + c\<^sup>2 \<le> (a + b + c)\<^sup>2"
    by (simp add: power2_eq_square algebra_simps)
  then show ?thesis
    unfolding linalg_norm_def using assms by (intro real_le_lsqrt) (simp_all add: add.assoc)
qed

text \<open>
  A ratio vector with a component that rounds past the 64-bit range never passes the
  check at the default tolerance: the cast turns that component into the smallest 64-bit
  integer, and the summed deviation is then larger than the norm of the ratios.
\<close>

lemma cell_fit_in_range:
  assumes "0 \<le> a" "0 \<le> b" "0 \<le> c"
    and "cell_fit (map (\<lambda>x. astype_int (around x)) [a, b, c]) [a, b, c] \<le> 1 / 100"
  shows "around a < 2 ^ 63 \<and> around b < 2 ^ 63 \<and> around c < 2 ^ 63"
proof (rule ccontr)
  assume "\<not> ?thesis"
  then have big: "2 ^ 63 \<le> around a \<or> 2 ^ 63 \<le> around b \<or> 2 ^ 63 \<le> around c" by auto
  define D where "D = real_of_int (astype_int (around a)) - a
      + (real_of_int (astype_int (around b)) - b + (real_of_int (astype_int (around c)) - c))"
  note fa = astype_int_around[OF assms(1)]
  note fb = astype_int_around[OF assms(2)]
  note fc = astype_int_around[OF assms(3)]
  have d: "D \<le> 3 / 2 - 2 ^ 64"
    using big fa fb fc unfolding D_def by auto
  have s: "a + b + c \<le> 3 * 2 ^ 63 - D"
    using fa(2) fb(2) fc(2) unfolding D_def by simp
  have n: "linalg_norm [a, b, c] \<le> 3 * 2 ^ 63 - D"
    using linalg_norm_le_sum[OF assms(1-3)] s by simp
  have "a \<noteq> 0 \<or> b \<noteq> 0 \<or> c \<noteq> 0"
    using big by auto
  then have "0 < a\<^sup>2 \<or> 0 < b\<^sup>2 \<or> 0 < c\<^sup>2" by simp
  moreover have "0 \<le> a\<^sup>2" "0 \<le> b\<^sup>2" "0 \<le> c\<^sup>2" by simp_all
  ultimately have "0 < a\<^sup>2 + (b\<^sup>2 + c\<^sup>2)" by linarith
  then have p: "0 < linalg_norm [a, b, c]" by (simp add: linalg_norm_def)
  have "1 / 100 * linalg_norm [a, b, c] < - D" using n d by simp
  then have "1 / 100 < (- D) / linalg_norm [a, b, c]" by (simp only: pos_less_divide_eq[OF p])
  moreover have "cell_fit (map (\<lambda>x. astype_int (around x)) [a, b, c]) [a, b, c]
      = \<bar>D / linalg_norm [a, b, c]\<bar>"
    by (simp add: cell_fit_def D_def)
  moreover have "\<bar>D / linalg_norm [a, b, c]\<bar> = (- D) / linalg_norm [a, b, c]"
    using d p by (simp add: abs_if divide_less_0_iff)
  ultimately show False using assms(4) by simp
qed

lemma divide_arrays_parameters:
  "\<exists>a b c. divide_arrays (parameters sc) (parameters h) = [a, b, c] \<and> 0 \<le> a \<and> 0 \<le> b \<and> 0 \<le> c"
proof -
  obtain a b c where r: "divide_arrays (parameters sc) (parameters h) = [a, b, c]"
    by (cases sc rule: parameters.cases, cases h rule: parameters.cases)
      (simp add: divide_arrays_def)
  have "\<forall>x \<in> set [a, b, c]. 0 \<le> x"
    unfolding r[symmetric] using divide_arrays_nonneg by blast
  with r show ?thesis by simp
qed

text \<open>
  Claim C9, as amended.  On a model with nothing cached, whose reference lattice vectors
  are non-zero, whose cells pass the tolerance check and whose structure has an atom
  count in the 64-bit range, \<^verbatim>\<open>get_super_cell_matrix\<close> returns the three rounded norm
  ratios: 64-bit integers that are non-negative, and positive when every ratio exceeds
  1/2; \<^verbatim>\<open>get_number_of_atoms\<close> returns (and caches) the primitive-cell atom count
  times the product of that vector in 64-bit arithmetic, which is that product itself
  whenever it lies in the 64-bit range.
\<close>

theorem get_number_of_atoms_product:
  assumes "get_super_cell_matrix default_tolerance s = Inr (m, s1)"
    and "super_cell_matrix_f s = None" and "number_of_atoms_f s = None"
    and "super_cell_f s = Some sc" and "structure_f s = Some st"
    and "\<forall>x \<in> set (parameters (get_cell st)). x \<noteq> 0"
    and "- (2 ^ 63) \<le> get_number_of_atoms_st st" and "get_number_of_atoms_st st < 2 ^ 63"
  shows "m = map around (divide_arrays (parameters sc) (parameters (get_cell st)))
       \<and> length m = 3
       \<and> (\<forall>k \<in> set m. 0 \<le> k \<and> k < 2 ^ 63)
       \<and> ((\<forall>r \<in> set (divide_arrays (parameters sc) (parameters (get_cell st))). 1 / 2 < r)
            \<longrightarrow> (\<forall>k \<in> set m. 0 < k))
       \<and> get_number_of_atoms s =
            Inr (int64 (get_number_of_atoms_st st * prod_list m),
                 s1\<lparr>number_of_atoms_f := Some (int64 (get_number_of_atoms_st st * prod_list m))\<rparr>)
       \<and> (- (2 ^ 63) \<le> get_number_of_atoms_st st * prod_list m
            \<and> get_number_of_atoms_st st * prod_list m < 2 ^ 63
            \<longrightarrow> int64 (get_number_of_atoms_st st * prod_list m)
                = get_number_of_atoms_st st * prod_list m)"
proof -
  let ?r = "divide_arrays (parameters sc) (parameters (get_cell st))"
  obtain a b c where r: "?r = [a, b, c]" and nn: "0 \<le> a" "0 \<le> b" "0 \<le> c"
    using divide_arrays_parameters[of sc "get_cell st"] by blast
  have m0: "m = map (\<lambda>x. astype_int (around x)) ?r"
    and fit: "cell_fit (map (\<lambda>x. astype_int (around x)) ?r) ?r \<le> default_tolerance"
    using assms(1) unfolding get_super_cell_matrix_computed[OF assms(2,4,5)]
    by (auto simp: Let_def split: if_splits)
  have "around a < 2 ^ 63 \<and> around b < 2 ^ 63 \<and> around c < 2 ^ 63"
    using fit nn unfolding r default_tolerance_def by (intro cell_fit_in_range) simp_all
  moreover have "0 \<le> around a" "0 \<le> around b" "0 \<le> around c"
    using nn by (simp_all add: around_nonneg)
  ultimately have c: "astype_int (around a) = around a" "astype_int (around b) = around b"
    "astype_int (around c) = around c" and u: "\<forall>k \<in> set (map around [a, b, c]). k < 2 ^ 63"
    by (simp_all add: astype_int_id)
  have m: "m = map around ?r" unfolding m0 r using c by simp
  have l: "length m = 3" by (simp add: m r)
  have n: "\<forall>k \<in> set m. 0 \<le> k \<and> k < 2 ^ 63"
    using u nn unfolding m r by (simp add: around_nonneg)
  have p: "(\<forall>r \<in> set ?r. 1 / 2 < r) \<longrightarrow> (\<forall>k \<in> set m. 0 < k)"
    unfolding m by (auto intro: around_pos)
  have g: "get_number_of_atoms s =
            Inr (int64 (get_number_of_atoms_st st * prod_list m),
                 s1\<lparr>number_of_atoms_f := Some (int64 (get_number_of_atoms_st st * prod_list m))\<rparr>)"
    using assms(1,3,5,7,8) by (simp add: get_number_of_atoms_def Let_def int64_mult)
  have e: "- (2 ^ 63) \<le> get_number_of_atoms_st st * prod_list m
            \<and> get_number_of_atoms_st st * prod_list m < 2 ^ 63
            \<longrightarrow> int64 (get_number_of_atoms_st st * prod_list m)
                = get_number_of_atoms_st st * prod_list m"
    by (simp add: int64_id)
  from m l n p g e show ?thesis by blast
qed

lemma example_unfit_ratio:
  "divide_arrays (parameters ((7 / 5, 0, 0), (0, 8 / 5, 0), (0, 0, 2)))
     (parameters (get_cell example_structure)) = [7 / 5, 8 / 5, 2]"
  by (simp add: example_structure_def parameters_diagonal divide_arrays_def del: parameters.simps)

lemma around_examples: "around (7 / 5) = 1" "around (8 / 5) = 2" "around (1 / 250) = 0"
  by (simp_all add: around_def)

text \<open>
  Claim C1, evaluated on a simulation cell with lattice-vector norms (1.4, 1.6, 2) over
  the unit cube: the ratios round to (1, 2, 2), the signed deviations -0.4, 0.4 and 0
  cancel in the sum, and the call returns (1, 2, 2) and caches it without halting,
  although two components miss their ratio by far more than the tolerance 0.01.
\<close>

theorem get_super_cell_matrix_accepts_unfit_cell:
  "get_super_cell_matrix default_tolerance example_unfit =
     Inr ([1, 2, 2], example_unfit\<lparr>super_cell_matrix_f := Some [1, 2, 2],
                       stdout := [MD_cell_size_relation [1, 2, 2]]\<rparr>)
   \<and> divide_arrays (parameters ((7 / 5, 0, 0), (0, 8 / 5, 0), (0, 0, 2)))
        (parameters (get_cell example_structure)) = [7 / 5, 8 / 5, 2]
   \<and> super_cell_f example_unfit = Some ((7 / 5, 0, 0), (0, 8 / 5, 0), (0, 0, 2))
   \<and> structure_f example_unfit = Some example_structure
   \<and> super_cell_matrix_f example_unfit = None
   \<and> default_tolerance < \<bar>1 - 7 / 5\<bar> / (7 / 5)
   \<and> default_tolerance < \<bar>2 - 8 / 5\<bar> / (8 / 5)"
proof -
  have a: "super_cell_matrix_f example_unfit = None"
    "super_cell_f example_unfit = Some ((7 / 5, 0, 0), (0, 8 / 5, 0), (0, 0, 2))"
    "structure_f example_unfit = Some example_structure"
    "stdout example_unfit = []"
    by (simp_all add: example_unfit_def set_super_cell_def example_dynamics_def init_def)
  have "get_super_cell_matrix default_tolerance example_unfit =
     Inr ([1, 2, 2], example_unfit\<lparr>super_cell_matrix_f := Some [1, 2, 2],
                       stdout := [MD_cell_size_relation [1, 2, 2]]\<rparr>)"
    unfolding get_super_cell_matrix_computed[OF a(1,2,3)] example_unfit_ratio
    by (simp add: around_examples astype_int_def cell_fit_def default_tolerance_def print_def
        a(4) Let_def)
  then show ?thesis
    using a example_unfit_ratio by (simp add: default_tolerance_def)
qed


lemma example_thin_ratio:
  "divide_arrays (parameters ((1 / 250, 0, 0), (0, 1, 0), (0, 0, 1)))
     (parameters (get_cell example_structure)) = [1 / 250, 1, 1]"
  by (simp add: example_structure_def parameters_diagonal divide_arrays_def del: parameters.simps)

lemma example_thin_fit: "cell_fit [0, 1, 1] [1 / 250, 1, 1] \<le> default_tolerance"
proof -
  have "1 \<le> linalg_norm [1 / 250, 1, 1]"
    unfolding linalg_norm_def by (rule real_sqrt_ge_one) (simp add: power2_eq_square)
  then have "(1 / 250) / linalg_norm [1 / 250, 1, 1] \<le> (1 / 250) / 1"
    by (intro divide_left_mono) simp_all
  moreover have "cell_fit [0, 1, 1] [1 / 250, 1, 1] = (1 / 250) / linalg_norm [1 / 250, 1, 1]"
    using linalg_norm_nonneg[of "[1 / 250, 1, 1]"] by (simp add: cell_fit_def)
  ultimately show ?thesis by (simp add: default_tolerance_def)
qed

text \<open>
  Claim C9 as stated fails: for the non-degenerate simulation cell with lattice-vector
  norms (0.004, 1, 1) over the unit cube the tolerance check passes (0.004 / 1.414 is
  below 0.01) and \<^verbatim>\<open>get_super_cell_matrix\<close> returns (0, 1, 1), which is not a vector
  of positive integers; \<^verbatim>\<open>get_number_of_atoms\<close> returns 0.
\<close>

theorem get_super_cell_matrix_zero_entry:
  "get_super_cell_matrix default_tolerance example_thin =
     Inr ([0, 1, 1], example_thin\<lparr>super_cell_matrix_f := Some [0, 1, 1],
                       stdout := [MD_cell_size_relation [0, 1, 1]]\<rparr>)
   \<and> get_number_of_atoms example_thin =
     Inr (0, example_thin\<lparr>super_cell_matrix_f := Some [0, 1, 1],
                       stdout := [MD_cell_size_relation [0, 1, 1]], number_of_atoms_f := Some 0\<rparr>)
   \<and> super_cell_f example_thin = Some ((1 / 250, 0, 0), (0, 1, 0), (0, 0, 1))
   \<and> get_cell example_structure = ((1, 0, 0), (0, 1, 0), (0, 0, 1))
   \<and> structure_f example_thin = Some example_structure
   \<and> get_number_of_atoms_st example_structure = 1"
proof -
  have a: "super_cell_matrix_f example_thin = None"
    "super_cell_f example_thin = Some ((1 / 250, 0, 0), (0, 1, 0), (0, 0, 1))"
    "structure_f example_thin = Some example_structure"
    "stdout example_thin = []" "number_of_atoms_f example_thin = None"
    by (simp_all add: example_thin_def set_super_cell_def example_dynamics_def init_def)
  have g: "get_super_cell_matrix default_tolerance example_thin =
     Inr ([0, 1, 1], example_thin\<lparr>super_cell_matrix_f := Some [0, 1, 1],
                       stdout := [MD_cell_size_relation [0, 1, 1]]\<rparr>)"
    unfolding get_super_cell_matrix_computed[OF a(1,2,3)] example_thin_ratio
    using example_thin_fit by (simp add: around_examples astype_int_def print_def a(4) Let_def)
  have "get_number_of_atoms example_thin =
     Inr (0, example_thin\<lparr>super_cell_matrix_f := Some [0, 1, 1],
                       stdout := [MD_cell_size_relation [0, 1, 1]], number_of_atoms_f := Some 0\<rparr>)"
    by (simp add: get_number_of_atoms_def a g Let_def example_structure_def int64_def)
  with g a show ?thesis by (simp add: example_structure_def)
qed

theorem get_number_of_atoms_product_witness:
  "get_super_cell_matrix default_tolerance example_dynamics =
     Inr ([2, 1, 1], example_dynamics\<lparr>super_cell_matrix_f := Some [2, 1, 1],
                       stdout := [MD_cell_size_relation [2, 1, 1]]\<rparr>)
   \<and> get_number_of_atoms example_dynamics =
       Inr (2, example_dynamics\<lparr>super_cell_matrix_f := Some [2, 1, 1],
                       stdout := [MD_cell_size_relation [2, 1, 1]], number_of_atoms_f := Some 2\<rparr>)
   \<and> parameters (get_cell example_structure) = [1, 1, 1]"
proof -
  have a: "super_cell_matrix_f example_dynamics = None" "number_of_atoms_f example_dynamics = None"
    "super_cell_f example_dynamics = Some ((2, 0, 0), (0, 1, 0), (0, 0, 1))"
    "structure_f example_dynamics = Some example_structure"
    by (simp_all add: example_dynamics_def init_def)
  have p: "parameters (get_cell example_structure) = [1, 1, 1]"
    by (simp add: example_structure_def parameters_diagonal del: parameters.simps)
  have nz: "\<forall>x \<in> set (parameters (get_cell example_structure)). x \<noteq> 0"
    unfolding p by simp
  have c: "- (2 ^ 63) \<le> get_number_of_atoms_st example_structure"
    "get_number_of_atoms_st example_structure < 2 ^ 63"
    by (simp_all add: example_structure_def)
  from get_number_of_atoms_product[OF example_super_cell_matrix a nz c] example_super_cell_matrix p
  show ?thesis by (simp add: example_structure_def int64_def)
qed


text \<open>
  The 64-bit product wraps: a simulation cell of 2^21 unit cells along each axis passes the
  check with the vector (2^21, 2^21, 2^21), whose product 2^63 is stored as -2^63.
\<close>

lemma get_number_of_atoms_wraps:
  "get_number_of_atoms example_large =
     Inr (- (2 ^ 63), example_large\<lparr>super_cell_matrix_f := Some [2097152, 2097152, 2097152],
            stdout := [MD_cell_size_relation [2097152, 2097152, 2097152]],
            number_of_atoms_f := Some (- (2 ^ 63))\<rparr>)"
proof -
  have a: "super_cell_matrix_f example_large = None"
    "super_cell_f example_large = Some ((2097152, 0, 0), (0, 2097152, 0), (0, 0, 2097152))"
    "structure_f example_large = Some example_structure"
    "stdout example_large = []" "number_of_atoms_f example_large = None"
    by (simp_all add: example_large_def set_super_cell_def example_dynamics_def init_def)
  have r: "divide_arrays (parameters ((2097152, 0, 0), (0, 2097152, 0), (0, 0, 2097152)))
     (parameters (get_cell example_structure)) = [2097152, 2097152, 2097152]"
    by (simp add: example_structure_def parameters_diagonal divide_arrays_def
        del: parameters.simps)
  have g: "get_super_cell_matrix default_tolerance example_large =
     Inr ([2097152, 2097152, 2097152],
          example_large\<lparr>super_cell_matrix_f := Some [2097152, 2097152, 2097152],
            stdout := [MD_cell_size_relation [2097152, 2097152, 2097152]]\<rparr>)"
    unfolding get_super_cell_matrix_computed[OF a(1,2,3)] r
    by (simp add: astype_int_def cell_fit_def default_tolerance_def print_def a(4) Let_def)
  show ?thesis
    by (simp add: get_number_of_atoms_def a g Let_def example_structure_def int64_def)
qed


section \<open>The mass-weighted velocity\<close>

lemma get_super_cell_matrix_frame:
  assumes "get_super_cell_matrix tolerance s = Inr (m, s1)"
  shows "super_cell_matrix_f s1 = Some m \<and> velocity_f s1 = velocity_f s
       \<and> structure_f s1 = structure_f s \<and> velocity_mass_average_f s1 = velocity_mass_average_f s
       \<and> number_of_atoms_f s1 = number_of_atoms_f s"
  using assms
  by (auto simp: get_super_cell_matrix_def Let_def print_def split: option.splits if_splits)

lemma get_number_of_atoms_fields:
  assumes "get_number_of_atoms s = Inr (n, s1)"
  shows "number_of_atoms_f s1 = Some n \<and> velocity_f s1 = velocity_f s
       \<and> structure_f s1 = structure_f s \<and> velocity_mass_average_f s1 = velocity_mass_average_f s"
  using assms
  by (auto simp: get_number_of_atoms_def Let_def bindE_Inr_iff split: option.splits if_splits
      dest!: get_super_cell_matrix_frame)

lemma velocity_structure:
  "velocity env s = Inr (v, s1) \<Longrightarrow> structure_f s1 = structure_f s"
proof (cases "velocity_f s")
  case (Some a)
  assume "velocity env s = Inr (v, s1)"
  with Some show ?thesis by (simp add: velocity_def)
next
  case None
  assume "velocity env s = Inr (v, s1)"
  with None obtain rel t1 n t2 where
    r: "get_relative_trajectory env (print No_velocity_provided s) = Inr (rel, t1)" and
    n: "get_number_of_atoms (t1\<lparr>velocity_f := Some (zeros_like rel)\<rparr>) = Inr (n, t2)" and
    l: "foldE (\<lambda>i st. case structure_f st of None \<Rightarrow> Inl AttributeError
           | Some str \<Rightarrow> foldE (velocity_step env i) (range_py (get_number_of_dimensions str)) st)
          (range_py n) t2 = Inr s1"
    by (auto simp: velocity_def bindE_Inr_iff split: option.splits)
  have 1: "structure_f t1 = structure_f s"
    using r by (auto simp: get_relative_trajectory_def bindE_Inr_iff print_def split: option.splits)
  have 2: "structure_f t2 = structure_f s"
    using get_number_of_atoms_fields[OF n] 1 by simp
  have step: "structure_f b = structure_f a" if "velocity_step env i j a = Inr b" for i j a b
    using that
    by (auto simp: velocity_step_def bindE_Inr_iff get_relative_trajectory_def
        get_time_step_average_def Let_def split: option.splits if_splits)
  show ?thesis
  proof (rule foldE_invariant[OF l, where P = "\<lambda>st. structure_f st = structure_f s"])
    show "structure_f t2 = structure_f s" by (rule 2)
  next
    fix i a b
    assume ab: "(case structure_f a of None \<Rightarrow> Inl AttributeError
           | Some str \<Rightarrow> foldE (velocity_step env i) (range_py (get_number_of_dimensions str)) a) = Inr b"
      and a: "structure_f a = structure_f s"
    then obtain str :: structure_t
      where f: "foldE (velocity_step env i) (range_py (get_number_of_dimensions str)) a = Inr b"
      by (auto split: option.splits)
    show "structure_f b = structure_f s"
      by (rule foldE_invariant[OF f, where P = "\<lambda>st. structure_f st = structure_f s"])
         (use a step in auto)
  qed
qed

lemma get_atom_Inr:
  "get_atom a i = Inr rs \<Longrightarrow> rs = map (\<lambda>f. f ! i) a \<and> (\<forall>f \<in> set a. i < length f)"
  by (auto simp: get_atom_def split: if_splits)

lemma set_atom_Inr:
  assumes "set_atom a i rs = Inr a'"
  shows "length rs = length a \<and> length a' = length a
       \<and> (\<forall>t < length a. i < length (a ! t) \<and> a' ! t = (a ! t)[i := rs ! t])"
  using assms by (auto simp: set_atom_def split: if_splits)

lemma mass_average_step_Inr:
  assumes "mass_average_step env m i s = Inr s'" and "velocity_f s = Some v"
    and "structure_f s = Some str" and "velocity_mass_average_f s = Some w"
  shows "\<exists>w'. s' = s\<lparr>velocity_mass_average_f := Some w'\<rparr>
           \<and> set_atom w i (map (map (\<lambda>x. x * of_real (sqrt (get_masses str m ! i))))
                              (map (\<lambda>f. f ! i) v)) = Inr w'
           \<and> i < length (get_masses str m) \<and> (\<forall>f \<in> set v. i < length f)"
  using assms
  by (auto simp: mass_average_step_def velocity_present bindE_Inr_iff Let_def
      split: if_splits dest!: get_atom_Inr)

lemma foldE_single: "foldE f [x] s = f x s"
  by (cases "f x s") simp_all

lemma foldE_snoc:
  "foldE f (xs @ [x]) s = Inr s' \<longleftrightarrow> (\<exists>mid. foldE f xs s = Inr mid \<and> f x mid = Inr s')"
  by (simp add: foldE_append bindE_Inr_iff foldE_single del: foldE.simps)

lemma mass_average_loop:
  assumes "foldE (mass_average_step env m) [0..<k] s3 = Inr s4"
    and "velocity_f s3 = Some v" and "structure_f s3 = Some str"
    and "velocity_mass_average_f s3 = Some w0" and "length w0 = length v"
  shows "velocity_f s4 = Some v \<and> structure_f s4 = Some str
       \<and> super_cell_matrix_f s4 = super_cell_matrix_f s3
       \<and> number_of_atoms_f s4 = number_of_atoms_f s3
       \<and> (\<exists>w. velocity_mass_average_f s4 = Some w \<and> length w = length v
              \<and> (\<forall>t < length v. \<forall>i < k.
                    w ! t ! i = map (\<lambda>x. x * of_real (sqrt (get_masses str m ! i))) (v ! t ! i)))"
  using assms(1)
proof (induction k arbitrary: s4)
  case 0
  then show ?case using assms(2-5) by simp
next
  case (Suc k)
  from Suc.prems obtain mid where
    mid: "foldE (mass_average_step env m) [0..<k] s3 = Inr mid" and
    step: "mass_average_step env m k mid = Inr s4"
    by (auto simp: foldE_snoc)
  from Suc.IH[OF mid] obtain w where
    f: "velocity_f mid = Some v" "structure_f mid = Some str"
       "super_cell_matrix_f mid = super_cell_matrix_f s3"
       "number_of_atoms_f mid = number_of_atoms_f s3" and
    w: "velocity_mass_average_f mid = Some w" "length w = length v" and
    prev: "\<forall>t < length v. \<forall>i < k.
             w ! t ! i = map (\<lambda>x. x * of_real (sqrt (get_masses str m ! i))) (v ! t ! i)"
    by blast
  let ?rs = "map (map (\<lambda>x. x * of_real (sqrt (get_masses str m ! k)))) (map (\<lambda>f. f ! k) v)"
  from mass_average_step_Inr[OF step f(1,2) w(1)] obtain w' where
    s4: "s4 = mid\<lparr>velocity_mass_average_f := Some w'\<rparr>" and
    set: "set_atom w k ?rs = Inr w'"
    by blast
  from set_atom_Inr[OF set] have
    l: "length w' = length w" and
    upd: "\<forall>t < length w. k < length (w ! t) \<and> w' ! t = (w ! t)[k := ?rs ! t]"
    by auto
  have "w' ! t ! i = map (\<lambda>x. x * of_real (sqrt (get_masses str m ! i))) (v ! t ! i)"
    if t: "t < length v" and i: "i < Suc k" for t i
  proof (cases "i = k")
    case True
    with upd t w(2) show ?thesis by simp
  next
    case False
    with i have "i < k" by simp
    with upd t w(2) prev False show ?thesis by simp
  qed
  with f w l show ?case by (simp add: s4)
qed

lemma sum_squares_scaled:
  fixes row :: "('a::real_normed_field) list"
  assumes "0 < mass"
  shows "sum_list (map (\<lambda>x. (norm x)\<^sup>2) (map (\<lambda>x. x * of_real (sqrt mass)) row)) / mass
           = sum_list (map (\<lambda>x. (norm x)\<^sup>2) row)"
    and "sum_list (map (\<lambda>x. x\<^sup>2) (map (\<lambda>x. x * of_real (sqrt mass)) row)) / of_real mass
           = sum_list (map (\<lambda>x. x\<^sup>2) row)"
proof -
  have "sum_list (map (\<lambda>x. (norm x)\<^sup>2) (map (\<lambda>x. x * of_real (sqrt mass)) row))
          = mass * sum_list (map (\<lambda>x. (norm x)\<^sup>2) row)"
    using assms by (induction row) (simp_all add: norm_mult power_mult_distrib algebra_simps)
  then show "sum_list (map (\<lambda>x. (norm x)\<^sup>2) (map (\<lambda>x. x * of_real (sqrt mass)) row)) / mass
           = sum_list (map (\<lambda>x. (norm x)\<^sup>2) row)"
    using assms by simp
  have sq: "(of_real (sqrt mass) :: 'a)\<^sup>2 = of_real mass"
    using assms by (simp flip: of_real_power)
  have "sum_list (map (\<lambda>x. x\<^sup>2) (map (\<lambda>x. x * of_real (sqrt mass)) row))
          = (of_real mass :: 'a) * sum_list (map (\<lambda>x. x\<^sup>2) row)"
    by (induction row) (simp_all add: power_mult_distrib sq algebra_simps)
  then show "sum_list (map (\<lambda>x. x\<^sup>2) (map (\<lambda>x. x * of_real (sqrt mass)) row)) / of_real mass
           = sum_list (map (\<lambda>x. x\<^sup>2) row)"
    using assms by simp
qed

text \<open>
  Claim C8.  When \<^verbatim>\<open>get_velocity_mass_average\<close> computes its buffer (nothing cached
  before), then for every atom i below the number of atoms and every time sample t the
  returned row is the velocity row of atom i multiplied by the square root of the mass
  \<^verbatim>\<open>get_masses(super_cell=super_cell)[i]\<close>; for a positive mass, its squares summed over
  the spatial axis and divided by the mass are the summed squares of the unweighted
  velocity, both for squared magnitudes and for algebraic squares.
\<close>

theorem get_velocity_mass_average_round_trip:
  fixes env :: "('a::real_normed_field) collaborators"
  assumes "get_velocity_mass_average env s = Inr (w, s')"
    and "velocity_mass_average_f s = None"
    and "velocity_f s' = Some v" and "structure_f s' = Some str"
    and "super_cell_matrix_f s' = Some m" and "number_of_atoms_f s' = Some n"
    and "int i < n" and "t < length v" and "0 < get_masses str m ! i"
  shows "w ! t ! i = map (\<lambda>x. x * of_real (sqrt (get_masses str m ! i))) (v ! t ! i)
       \<and> sum_list (map (\<lambda>x. (norm x)\<^sup>2) (w ! t ! i)) / get_masses str m ! i
           = sum_list (map (\<lambda>x. (norm x)\<^sup>2) (v ! t ! i))
       \<and> sum_list (map (\<lambda>x. x\<^sup>2) (w ! t ! i)) / of_real (get_masses str m ! i)
           = sum_list (map (\<lambda>x. x\<^sup>2) (v ! t ! i))"
proof -
  from assms(1,2) obtain v0 s1 m0 s2 n0 s3 where
    v0: "velocity env s = Inr (v0, s1)" and
    m0: "get_super_cell_matrix default_tolerance
           (s1\<lparr>velocity_mass_average_f := Some (empty_like (uninitialised env) v0)\<rparr>) = Inr (m0, s2)" and
    n0: "get_number_of_atoms s2 = Inr (n0, s3)" and
    loop: "foldE (mass_average_step env m0) (range_py n0) s3 = Inr s'" and
    w: "velocity_mass_average_f s' = Some w"
    by (auto simp: get_velocity_mass_average_def bindE_Inr_iff split: option.splits)
  note a = get_super_cell_matrix_frame[OF m0] and b = get_number_of_atoms_fields[OF n0]
  have v3: "velocity_f s3 = Some v0"
    using a b velocity_sets_field[OF v0] by simp
  have w3: "velocity_mass_average_f s3 = Some (empty_like (uninitialised env) v0)"
    using a b by simp
  have m3: "super_cell_matrix_f s3 = Some m0"
    using a get_number_of_atoms_frame[OF n0] by simp
  have n3: "number_of_atoms_f s3 = Some n0" using b by simp
  obtain str0 where str0: "structure_f s3 = Some str0"
  proof (cases "structure_f s3")
    case None
    have "structure_f s' = None"
      by (rule foldE_invariant[OF loop, where P = "\<lambda>st. structure_f st = None"])
         (auto simp: None mass_average_step_def bindE_Inr_iff Let_def dest!: velocity_structure
            split: option.splits if_splits)
    with assms(4) show ?thesis by simp
  qed blast
  have len: "length (empty_like (uninitialised env) v0) = length v0"
    by (simp add: empty_like_def)
  from mass_average_loop[OF loop[unfolded range_py_def] v3 str0 w3 len] w assms(3,4,5,6) m3 n3
  have eq: "v = v0" "str = str0" "m = m0" "n = n0" and
    res: "\<forall>t < length v0. \<forall>i < nat n0.
             w ! t ! i = map (\<lambda>x. x * of_real (sqrt (get_masses str0 m0 ! i))) (v0 ! t ! i)"
    by auto
  have r: "w ! t ! i = map (\<lambda>x. x * of_real (sqrt (get_masses str m ! i))) (v ! t ! i)"
    using res assms(7,8) eq by auto
  from sum_squares_scaled[OF assms(9), of "v ! t ! i"] r show ?thesis
    by (simp only: simp_thms)
qed


lemma example_mass_average:
  "get_velocity_mass_average example_collaborators example_dynamics =
     Inr ([[[2, 0, 0], [0, 2, 0]], [[4, 0, 0], [0, 4, 0]], [[6, 0, 0], [0, 6, 0]]],
          example_dynamics\<lparr>velocity_mass_average_f :=
              Some [[[2, 0, 0], [0, 2, 0]], [[4, 0, 0], [0, 4, 0]], [[6, 0, 0], [0, 6, 0]]],
            super_cell_matrix_f := Some [2, 1, 1], number_of_atoms_f := Some 2,
            stdout := [MD_cell_size_relation [2, 1, 1]]\<rparr>)"
proof -
  have up: "[0..<2] = [0, 1]" by (simp add: upt_rec)
  show ?thesis
    by (simp add: get_velocity_mass_average_def velocity_def example_dynamics_def init_def
        example_frames_def empty_like_def example_collaborators_def
        get_super_cell_matrix_def example_structure_def parameters_diagonal divide_arrays_def
        cell_fit_def default_tolerance_def print_def Let_def get_number_of_atoms_def
        range_py_def up mass_average_step_def get_atom_def set_atom_def astype_int_def int64_def
        del: parameters.simps)
qed

theorem get_velocity_mass_average_round_trip_witness:
  "get_velocity_mass_average example_collaborators example_dynamics =
     Inr ([[[2, 0, 0], [0, 2, 0]], [[4, 0, 0], [0, 4, 0]], [[6, 0, 0], [0, 6, 0]]],
          example_dynamics\<lparr>velocity_mass_average_f :=
              Some [[[2, 0, 0], [0, 2, 0]], [[4, 0, 0], [0, 4, 0]], [[6, 0, 0], [0, 6, 0]]],
            super_cell_matrix_f := Some [2, 1, 1], number_of_atoms_f := Some 2,
            stdout := [MD_cell_size_relation [2, 1, 1]]\<rparr>)
   \<and> get_masses example_structure [2, 1, 1] ! 1 = 4
   \<and> sum_list (map (\<lambda>x. (norm x)\<^sup>2) [0, 6, 0 :: real]) / 4
        = sum_list (map (\<lambda>x. (norm x)\<^sup>2) (example_frames ! 2 ! 1))"
proof -
  let ?w = "[[[2, 0, 0], [0, 2, 0]], [[4, 0, 0], [0, 4, 0]], [[6, 0, 0], [0, 6, 0 :: real]]]"
  let ?s' = "example_dynamics\<lparr>velocity_mass_average_f := Some ?w,
            super_cell_matrix_f := Some [2, 1, 1], number_of_atoms_f := Some 2,
            stdout := [MD_cell_size_relation [2, 1, 1]]\<rparr>"
  have a: "velocity_mass_average_f example_dynamics = None"
    "velocity_f ?s' = Some example_frames" "structure_f ?s' = Some example_structure"
    "super_cell_matrix_f ?s' = Some [2, 1, 1]" "number_of_atoms_f ?s' = Some 2"
    by (simp_all add: example_dynamics_def init_def)
  have b: "int 1 < 2" "2 < length example_frames" by (simp_all add: example_frames_def)
  have mass: "get_masses example_structure [2, 1, 1] ! 1 = 4"
    by (simp add: example_structure_def numeral_2_eq_2)
  have c: "0 < get_masses example_structure [2, 1, 1] ! 1" unfolding mass by simp
  have d: "?w ! 2 ! 1 = [0, 6, 0]" by simp
  from get_velocity_mass_average_round_trip[OF example_mass_average a b c] mass d
    example_mass_average
  show ?thesis by (simp add: example_frames_def)
qed


section \<open>The coefficient scan\<close>

lemma get_time_step_average_stable:
  assumes "get_time_step_average t = Inr (dt, t1)"
  shows "get_time_step_average (print m t1) = Inr (dt, print m t1)"
    and "get_time_step_average (progress_bar p l t1) = Inr (dt, progress_bar p l t1)"
proof -
  note f = get_time_step_average_fixed[OF assms]
  show "get_time_step_average (print m t1) = Inr (dt, print m t1)"
    unfolding get_time_step_average_print using f by simp
  show "get_time_step_average (progress_bar p l t1) = Inr (dt, progress_bar p l t1)"
    by (rule get_time_step_average_progress[OF f])
qed

lemma scan_step_unfold:
  assumes "get_time_step_average t = Inr (dt, t1)" and "get_mode vq i = Inr column"
  shows "scan_step env vq par i n (fd, sp, ps, t) =
     (if candidate_spectrum env par column dt n = [] then Inl ValueError
      else if \<not> first_index (candidate_spectrum env par column dt n)
                   (Max (set (candidate_spectrum env par column dt n))) < length (frequency_range par)
      then Inl IndexError
      else if candidate_fit env par column dt n = None
      then Inr (fd, sp, ps, print (Fitting_error_skipping_point n) t1)
      else if last (mem_scan_range par) = 0 then Inl ZeroDivisionError
      else Inr (fd @ [recorded_triple env par column dt n],
                sp @ [fitted_parameters env par column dt n],
                ps @ [candidate_spectrum env par column dt n],
                progress_bar (real_of_int (n + 1) / real_of_int (last (mem_scan_range par)))
                  ''M.E. Method'' t1))"
  by (auto simp: scan_step_def assms np_max_def np_argmax_def index_def Let_def
      candidate_fit_def candidate_spectrum_def lorentzian_seed_def recorded_triple_def
      fitted_parameters_def half_width_def area_scale_def split: option.splits)

lemma scan_step_Inr:
  assumes "scan_step env vq par i n (fd, sp, ps, t) = Inr r"
    and "get_time_step_average t = Inr (dt, t1)" and "get_mode vq i = Inr column"
  shows "\<exists>t'. r = (fd @ (if candidate_fit env par column dt n \<noteq> None
                            then [recorded_triple env par column dt n] else []),
                    sp @ (if candidate_fit env par column dt n \<noteq> None
                            then [fitted_parameters env par column dt n] else []),
                    ps @ (if candidate_fit env par column dt n \<noteq> None
                            then [candidate_spectrum env par column dt n] else []), t')
              \<and> get_time_step_average t' = Inr (dt, t')"
  using assms(1) get_time_step_average_stable[OF assms(2)]
  unfolding scan_step_unfold[OF assms(2,3)]
  by (auto split: if_splits)

lemma scan_loop:
  assumes "foldE (scan_step env vq par i) cands (fd, sp, ps, t) = Inr (fd', sp', ps', t')"
    and "get_time_step_average t = Inr (dt, t1)" and "get_mode vq i = Inr column"
  shows "fd' = fd @ map (recorded_triple env par column dt)
                    (filter (\<lambda>n. candidate_fit env par column dt n \<noteq> None) cands)
       \<and> sp' = sp @ map (fitted_parameters env par column dt)
                    (filter (\<lambda>n. candidate_fit env par column dt n \<noteq> None) cands)
       \<and> ps' = ps @ map (candidate_spectrum env par column dt)
                    (filter (\<lambda>n. candidate_fit env par column dt n \<noteq> None) cands)
       \<and> (\<exists>t2. get_time_step_average t' = Inr (dt, t2))"
  using assms(1,2)
proof (induction cands arbitrary: fd sp ps t t1)
  case Nil
  then show ?case by auto
next
  case (Cons n cands)
  from Cons.prems(1) obtain r where
    r: "scan_step env vq par i n (fd, sp, ps, t) = Inr r" and
    rest: "foldE (scan_step env vq par i) cands r = Inr (fd', sp', ps', t')"
    by (auto split: sum.splits)
  from scan_step_Inr[OF r Cons.prems(2) assms(3)] obtain t2 where
    r': "r = (fd @ (if candidate_fit env par column dt n \<noteq> None
                            then [recorded_triple env par column dt n] else []),
                    sp @ (if candidate_fit env par column dt n \<noteq> None
                            then [fitted_parameters env par column dt n] else []),
                    ps @ (if candidate_fit env par column dt n \<noteq> None
                            then [candidate_spectrum env par column dt n] else []), t2)" and
    t2: "get_time_step_average t2 = Inr (dt, t2)"
    by blast
  from Cons.IH[OF rest[unfolded r'] t2] show ?case by auto
qed

lemma first_index_less: "y \<in> set xs \<Longrightarrow> first_index xs y < length xs \<and> xs ! first_index xs y = y"
  by (induction xs) auto

lemma np_argmin_Inr:
  assumes "np_argmin xs = Inr k"
  shows "k < length xs \<and> xs ! k = Min (set xs) \<and> (\<forall>j < length xs. xs ! k \<le> xs ! j)"
proof -
  from assms have ne: "xs \<noteq> []" and k: "k = first_index xs (Min (set xs))"
    by (auto simp: np_argmin_def split: if_splits)
  have "Min (set xs) \<in> set xs" using ne by (intro Min_in) auto
  from first_index_less[OF this] k have "k < length xs" "xs ! k = Min (set xs)" by auto
  then show ?thesis by auto
qed

lemma np_average_Inr:
  "np_average a w = Inr x \<Longrightarrow>
     length w = length a \<and> x = sum_list (map (\<lambda>(x, y). x * y) (zip a w)) / sum_list w"
  by (auto simp: np_average_def split: if_splits)

lemma zip_map_weights:
  "map (\<lambda>(x, y). x * y) (zip a (map f b)) = map (\<lambda>(w, e). w * f e) (zip a b)"
  by (induction a b rule: list_induct2') auto

lemma transpose_triples:
  assumes "xs \<noteq> []" and "\<forall>x \<in> set xs. length (f x) = 3"
  shows "transpose (map f xs) = [map (\<lambda>x. f x ! 0) xs, map (\<lambda>x. f x ! 1) xs, map (\<lambda>x. f x ! 2) xs]"
proof -
  have "transpose (map f xs) =
        map (\<lambda>j. map (\<lambda>i. map f xs ! i ! j) [0..<length (map f xs)]) [0..<3]"
    by (rule transpose_rectangle) (use assms in auto)
  also have "\<dots> = map (\<lambda>j. map (\<lambda>x. f x ! j) xs) [0..<3]"
    by (auto intro!: nth_equalityI)
  also have "[0..<3] = [0, 1, 2]" by (simp add: upt_rec)
  finally show ?thesis by simp
qed

lemma length_recorded_triple:
  "candidate_fit env par column dt n \<noteq> None \<Longrightarrow> length (recorded_triple env par column dt n) = 3"
  by (auto simp: recorded_triple_def split: option.splits)

lemma recorded_triple_count:
  "candidate_fit env par column dt n \<noteq> None \<Longrightarrow> recorded_triple env par column dt n ! 0 = real_of_int n"
  by (auto simp: recorded_triple_def split: option.splits)


lemma mode_scan_Inr:
  assumes "mode_scan env vq par i tr = Inr (e, tr')"
    and "get_time_step_average tr = Inr (dt, t1)" and "get_mode vq i = Inr column"
  shows "successful_candidates env par column dt \<noteq> []
       \<and> entry_fit_data e =
           [map real_of_int (successful_candidates env par column dt),
            map (\<lambda>n. recorded_triple env par column dt n ! 1) (successful_candidates env par column dt),
            map (\<lambda>n. recorded_triple env par column dt n ! 2) (successful_candidates env par column dt)]
       \<and> entry_scan_params e =
           map (fitted_parameters env par column dt) (successful_candidates env par column dt)
       \<and> entry_best_width e = weighted_average_width (entry_fit_data e ! 1) (entry_fit_data e ! 2)
       \<and> entry_best_index e < length (successful_candidates env par column dt)
       \<and> (\<forall>k < length (successful_candidates env par column dt).
             entry_fit_data e ! 2 ! entry_best_index e \<le> entry_fit_data e ! 2 ! k)
       \<and> entry_power_spectrum e =
           candidate_spectrum env par column dt
             (successful_candidates env par column dt ! entry_best_index e)
       \<and> (\<exists>t2. get_time_step_average tr' = Inr (dt, t2))"
proof -
  let ?succ = "successful_candidates env par column dt"
  let ?R = "recorded_triple env par column dt"
  obtain m where m: "progress_bar 0 ''M.E. Method'' tr = print m tr"
    using progress_bar_print by blast
  have g0: "get_time_step_average (progress_bar 0 ''M.E. Method'' tr) = Inr (dt, print m t1)"
    unfolding m get_time_step_average_print using assms(2) by simp
  from assms(1) obtain fl sp ps widths errors bw bi spec where
    loop: "foldE (scan_step env vq par i) (mem_scan_range par)
             ([], [], [], progress_bar 0 ''M.E. Method'' tr) = Inr (fl, sp, ps, tr')" and
    w: "index (array_T fl) 1 = Inr widths" and er: "index (array_T fl) 2 = Inr errors" and
    av: "np_average widths (map (\<lambda>e. sqrt (1 / e)) errors) = Inr bw" and
    am: "np_argmin errors = Inr bi" and sp: "index ps bi = Inr spec" and
    e: "e = \<lparr>entry_power_spectrum = spec, entry_best_width = bw, entry_best_index = bi,
             entry_fit_data = array_T fl, entry_scan_params = sp\<rparr>"
    by (auto simp: mode_scan_def bindE_Inr_iff Let_def)
  from scan_loop[OF loop g0 assms(3)] have
    fl: "fl = map ?R ?succ" and sp': "sp = map (fitted_parameters env par column dt) ?succ" and
    ps: "ps = map (candidate_spectrum env par column dt) ?succ" and
    g: "\<exists>t2. get_time_step_average tr' = Inr (dt, t2)"
    by (auto simp: successful_candidates_def)
  have ne: "?succ \<noteq> []"
    using w by (auto simp: fl array_T_def index_def split: if_splits)
  have ok: "\<forall>n \<in> set ?succ. candidate_fit env par column dt n \<noteq> None"
    by (simp add: successful_candidates_def)
  have T: "array_T fl = [map (\<lambda>n. ?R n ! 0) ?succ, map (\<lambda>n. ?R n ! 1) ?succ, map (\<lambda>n. ?R n ! 2) ?succ]"
    unfolding fl array_T_def
    by (rule transpose_triples[OF ne]) (use ok length_recorded_triple in blast)
  have c0: "map (\<lambda>n. ?R n ! 0) ?succ = map real_of_int ?succ"
    using ok by (auto simp: recorded_triple_count)
  have wd: "widths = map (\<lambda>n. ?R n ! 1) ?succ" and ed: "errors = map (\<lambda>n. ?R n ! 2) ?succ"
    using w er by (auto simp: T index_def split: if_splits)
  have fd1: "array_T fl ! 1 = widths" "array_T fl ! 2 = errors"
    by (simp_all add: T wd ed)
  from np_average_Inr[OF av] have
    bw: "bw = weighted_average_width widths errors"
    by (simp add: weighted_average_width_def zip_map_weights comp_def)
  from np_argmin_Inr[OF am] have
    bi: "bi < length errors" "\<forall>j < length errors. errors ! bi \<le> errors ! j"
    by auto
  have le: "length errors = length ?succ" by (simp add: ed)
  have spec: "spec = candidate_spectrum env par column dt (?succ ! bi)"
    using sp bi(1) le by (auto simp: index_def ps split: if_splits)
  show ?thesis
    using ne T c0 sp' bw bi le spec g fd1 by (simp add: e)
qed


lemma mode_scan_get_mode:
  assumes "mode_scan env vq par i tr = Inr (e, tr')"
  shows "\<exists>column. get_mode vq i = Inr column"
proof -
  from assms obtain fl sp ps widths where
    loop: "foldE (scan_step env vq par i) (mem_scan_range par)
             ([], [], [], progress_bar 0 ''M.E. Method'' tr) = Inr (fl, sp, ps, tr')" and
    w: "index (array_T fl) 1 = Inr widths"
    by (auto simp: mode_scan_def bindE_Inr_iff Let_def)
  show ?thesis
  proof (cases "mem_scan_range par")
    case Nil
    with loop w show ?thesis by (simp add: array_T_def index_def)
  next
    case (Cons n rest)
    with loop obtain r where
      "scan_step env vq par i n ([], [], [], progress_bar 0 ''M.E. Method'' tr) = Inr r"
      by (auto split: sum.splits)
    then show ?thesis by (auto simp: scan_step_def bindE_Inr_iff)
  qed
qed

lemma mode_scan_time_step:
  assumes "mode_scan env vq par i tr = Inr (e, tr')" and "get_time_step_average tr = Inr (dt, t1)"
  shows "\<exists>t2. get_time_step_average tr' = Inr (dt, t2)"
proof -
  from mode_scan_get_mode[OF assms(1)] obtain column where "get_mode vq i = Inr column" by blast
  from mode_scan_Inr[OF assms this] show ?thesis by blast
qed

lemma scan_modes_loop:
  fixes t :: "'b dynamics"
  assumes "foldE (store_mode_scan env vq par) [0..<k] (d0, t) = Inr (d, t')"
    and "get_time_step_average t = Inr (dt, t1)"
  shows "(\<exists>t2. get_time_step_average t' = Inr (dt, t2))
       \<and> (\<forall>i < k. \<exists>e (ti :: 'b dynamics) ti' tj. d i = Some e \<and> mode_scan env vq par i ti = Inr (e, ti')
                      \<and> get_time_step_average ti = Inr (dt, tj))"
  using assms(1)
proof (induction k arbitrary: d t')
  case 0
  then show ?case using assms(2) by auto
next
  case (Suc k)
  from Suc.prems obtain dm tm where
    mid: "foldE (store_mode_scan env vq par) [0..<k] (d0, t) = Inr (dm, tm)" and
    step: "store_mode_scan env vq par k (dm, tm) = Inr (d, t')"
    by (auto simp: foldE_snoc)
  from step obtain e where e: "mode_scan env vq par k tm = Inr (e, t')" and d: "d = dm(k \<mapsto> e)"
    by (auto simp: store_mode_scan_def bindE_Inr_iff)
  from Suc.IH[OF mid] obtain tj where
    tm: "get_time_step_average tm = Inr (dt, tj)" and
    old: "\<forall>i < k. \<exists>e (ti :: 'b dynamics) ti' tj. dm i = Some e \<and> mode_scan env vq par i ti = Inr (e, ti')
                      \<and> get_time_step_average ti = Inr (dt, tj)"
    by blast
  have "\<exists>e (ti :: 'b dynamics) ti' tj. d i = Some e \<and> mode_scan env vq par i ti = Inr (e, ti')
                      \<and> get_time_step_average ti = Inr (dt, tj)" if "i < Suc k" for i
  proof (cases "i = k")
    case True
    with e d tm show ?thesis by auto
  next
    case False
    with that have "i < k" by simp
    with old False d show ?thesis by simp
  qed
  with mode_scan_time_step[OF e tm] show ?case by blast
qed

lemma report_modes_dict:
  "foldE report_mode xs (d, t) = Inr (d', t') \<Longrightarrow> d' = d"
proof (induction xs arbitrary: t)
  case Nil
  then show ?case by simp
next
  case (Cons i xs)
  from Cons.prems obtain r where r: "report_mode i (d, t) = Inr r" and
    rest: "foldE report_mode xs r = Inr (d', t')"
    by (auto split: sum.splits)
  from r obtain t2 where "r = (d, t2)"
    by (auto simp: report_mode_def bindE_Inr_iff Let_def split: option.splits)
  with rest Cons.IH show ?case by simp
qed

lemma mem_coefficient_scan_analysis_entries:
  fixes trajectory :: "'b dynamics"
  assumes "mem_coefficient_scan_analysis env vq trajectory par = Inr (mem_full_dict, trajectory')"
    and "get_time_step_average trajectory = Inr (dt, t1)"
    and "i < shape1 vq" and "get_mode vq i = Inr column"
  shows "\<exists>e. mem_full_dict i = Some e
       \<and> successful_candidates env par column dt \<noteq> []
       \<and> entry_fit_data e =
           [map real_of_int (successful_candidates env par column dt),
            map (\<lambda>n. recorded_triple env par column dt n ! 1) (successful_candidates env par column dt),
            map (\<lambda>n. recorded_triple env par column dt n ! 2) (successful_candidates env par column dt)]
       \<and> entry_scan_params e =
           map (fitted_parameters env par column dt) (successful_candidates env par column dt)
       \<and> entry_best_width e = weighted_average_width (entry_fit_data e ! 1) (entry_fit_data e ! 2)
       \<and> entry_best_index e < length (successful_candidates env par column dt)
       \<and> (\<forall>k < length (successful_candidates env par column dt).
             entry_fit_data e ! 2 ! entry_best_index e \<le> entry_fit_data e ! 2 ! k)
       \<and> entry_power_spectrum e =
           candidate_spectrum env par column dt
             (successful_candidates env par column dt ! entry_best_index e)
       \<and> entry_scan_params e ! entry_best_index e =
           fitted_parameters env par column dt
             (successful_candidates env par column dt ! entry_best_index e)
       \<and> entry_fit_data e ! 0 ! entry_best_index e =
           real_of_int (successful_candidates env par column dt ! entry_best_index e)"
proof -
  from assms(1) obtain d0 tm where
    scan: "foldE (store_mode_scan env vq par) [0..<shape1 vq] (Map.empty, trajectory) = Inr (d0, tm)" and
    rep: "foldE report_mode [0..<shape1 vq] (d0, tm) = Inr (mem_full_dict, trajectory')"
    by (auto simp: mem_coefficient_scan_analysis_def bindE_Inr_iff)
  have d: "mem_full_dict = d0" by (rule report_modes_dict[OF rep])
  from scan_modes_loop[OF scan assms(2)] assms(3) obtain e and ti :: "'b dynamics" and ti' tj where
    e: "d0 i = Some e" and ms: "mode_scan env vq par i ti = Inr (e, ti')" and
    ti: "get_time_step_average ti = Inr (dt, tj)"
    by blast
  note r = mode_scan_Inr[OF ms ti assms(4)]
  from r have "entry_scan_params e ! entry_best_index e =
           fitted_parameters env par column dt
             (successful_candidates env par column dt ! entry_best_index e)"
    by simp
  moreover from r have "entry_fit_data e ! 0 ! entry_best_index e =
           real_of_int (successful_candidates env par column dt ! entry_best_index e)"
    by simp
  ultimately show ?thesis using r e d by blast
qed

lemma ex_gm: "get_mode example_vq 0 = Inr [1, 2, 3]"
  by (simp add: get_mode_def example_vq_def)

lemma ex_cf:
  "candidate_spectrum example_fitting example_scan_parameters [1, 2, 3] 1 n = [real_of_int n, 1 + real_of_int n]"
  "candidate_fit example_fitting example_scan_parameters [1, 2, 3] 1 n =
     (if n = 1 then None else Some ((1, 1, pi, 0), (real_of_int n - 1)\<^sup>2))"
  by (auto simp: candidate_spectrum_def candidate_fit_def example_fitting_def
      example_scan_parameters_def lorentzian_seed_def)

lemma ex_ts: "get_time_step_average (example_trajectory\<lparr>time_step_average_f := Some 1, stdout := out\<rparr>)
   = Inr (1, example_trajectory\<lparr>time_step_average_f := Some 1, stdout := out\<rparr>)"
  by (simp add: get_time_step_average_def)

lemma ex_ts0: "get_time_step_average (example_trajectory\<lparr>stdout := out\<rparr>)
   = Inr (1, example_trajectory\<lparr>time_step_average_f := Some 1, stdout := out\<rparr>)"
  using example_time_step
  by (simp add: get_time_step_average_def example_trajectory_def init_def Let_def)

lemma ex_par: "mem_scan_range example_scan_parameters = [1, 2, 3]"
  "frequency_range example_scan_parameters = [0, 1]"
  by (simp_all add: example_scan_parameters_def)

lemma ex_out: "stdout example_trajectory = []"
  by (simp add: example_trajectory_def init_def)

lemma ex_err: "get_error_from_covariance example_fitting c = c"
  by (simp add: example_fitting_def)

lemma ex_rec:
  "recorded_triple example_fitting example_scan_parameters [1, 2, 3] 1 2 = [2, 2, 1]"
  "recorded_triple example_fitting example_scan_parameters [1, 2, 3] 1 3 = [3, 2, 4]"
  "fitted_parameters example_fitting example_scan_parameters [1, 2, 3] 1 2 = (1, 1, pi, 0)"
  "fitted_parameters example_fitting example_scan_parameters [1, 2, 3] 1 3 = (1, 1, pi, 0)"
  by (simp_all add: recorded_triple_def fitted_parameters_def ex_cf half_width_def area_scale_def
      ex_err)

lemma ex_T: "transpose [[2, 2, 1], [3, 2, 4 :: real]] = [[2, 3], [2, 2], [1, 4]]"
  using transpose_triples[of "[0, 1 :: nat]" "\<lambda>k. [[2, 2, 1], [3, 2, 4 :: real]] ! k"]
  by simp

lemma example_mode_scan: "mode_scan example_fitting example_vq example_scan_parameters 0 example_trajectory =
   Inr (\<lparr>entry_power_spectrum = [2, 3], entry_best_width = 2, entry_best_index = 0,
         entry_fit_data = [[2, 3], [2, 2], [1, 4]],
         entry_scan_params = [(1, 1, pi, 0), (1, 1, pi, 0)]\<rparr>,
        example_trajectory\<lparr>time_step_average_f := Some 1,
          stdout := [Progress ''M.E. Method'' 0 [], Fitting_error_skipping_point 1,
                     Progress ''M.E. Method'' 1 ''Done...'', Progress ''M.E. Method'' 1 ''Done...'']\<rparr>)"
  by (simp add: mode_scan_def progress_bar_def print_def scan_step_unfold[OF ex_ts ex_gm]
        scan_step_unfold[OF ex_ts0 ex_gm] ex_cf ex_par ex_rec ex_T Let_def
       array_T_def index_def np_average_def np_argmin_def real_sqrt_divide ex_out)


lemma example_analysis:
  "mem_coefficient_scan_analysis example_fitting example_vq example_trajectory example_scan_parameters =
     Inr ([0 \<mapsto> \<lparr>entry_power_spectrum = [2, 3], entry_best_width = 2, entry_best_index = 0,
                   entry_fit_data = [[2, 3], [2, 2], [1, 4]],
                   entry_scan_params = [(1, 1, pi, 0), (1, 1, pi, 0)]\<rparr>],
          example_trajectory\<lparr>time_step_average_f := Some 1,
            stdout := [Progress ''M.E. Method'' 0 [], Fitting_error_skipping_point 1,
                       Progress ''M.E. Method'' 1 ''Done...'', Progress ''M.E. Method'' 1 ''Done...'',
                       Peak_number 1, Separator_line, Estimated_width 2, Position 1,
                       Optimum_coefficients_num 2, Fitting_error 1, Newline]\<rparr>)"
proof -
  have up: "[0..<shape1 example_vq] = [0]" by (simp add: example_vq_def)
  show ?thesis
    unfolding mem_coefficient_scan_analysis_def up
    by (simp add: store_mode_scan_def example_mode_scan report_mode_def index_def np_min_def
        print_def Let_def)
qed

text \<open>
  Claim C4, evaluated on a one-mode matrix and the scan range [1] with a fitter that
  fails: the candidate is skipped, the table \<^verbatim>\<open>fit_data\<close> stays empty, and
  \<^verbatim>\<open>fit_data[1]\<close> raises IndexError, which leaves the routine; no summary is produced.
\<close>

theorem mem_coefficient_scan_analysis_all_fits_fail:
  "mem_coefficient_scan_analysis example_numerics example_vq example_trajectory example_parameters
     = Inl IndexError
   \<and> mem_scan_range example_parameters = [1]
   \<and> curve_fit example_numerics (frequency_range example_parameters)
        (mem example_numerics (frequency_range example_parameters) [1, 2, 3] 1 1)
        (lorentzian_seed (frequency_range example_parameters)
           (mem example_numerics (frequency_range example_parameters) [1, 2, 3] 1 1)) = None"
proof -
  have up: "[0..<shape1 example_vq] = [0]" by (simp add: example_vq_def)
  have cf: "candidate_fit example_numerics example_parameters [1, 2, 3] 1 n = None" for n
    by (simp add: candidate_fit_def example_numerics_def)
  have cs: "candidate_spectrum example_numerics example_parameters [1, 2, 3] 1 n = [1, 2]" for n
    by (simp add: candidate_spectrum_def example_numerics_def example_parameters_def)
  have par: "mem_scan_range example_parameters = [1]" "frequency_range example_parameters = [0, 1]"
    by (simp_all add: example_parameters_def)
  have "mode_scan example_numerics example_vq example_parameters 0 example_trajectory = Inl IndexError"
    by (simp add: mode_scan_def progress_bar_def print_def scan_step_unfold[OF ex_ts0 ex_gm]
        cf cs par array_T_def index_def)
  then have "mem_coefficient_scan_analysis example_numerics example_vq example_trajectory
      example_parameters = Inl IndexError"
    unfolding mem_coefficient_scan_analysis_def up by (simp add: store_mode_scan_def)
  then show ?thesis by (simp add: par example_numerics_def)
qed

lemma scan_without_success:
  assumes "\<forall>f p seed. curve_fit env f p seed = None" and "0 < shape1 vq"
  shows "mem_coefficient_scan_analysis env vq trajectory par \<noteq> Inr r"
proof
  assume a: "mem_coefficient_scan_analysis env vq trajectory par = Inr r"
  have up: "[0..<shape1 vq] = 0 # [1..<shape1 vq]" using assms(2) by (simp add: upt_rec)
  from a obtain e t where ms: "mode_scan env vq par 0 trajectory = Inr (e, t)"
    unfolding mem_coefficient_scan_analysis_def up
    by (auto simp: bindE_Inr_iff store_mode_scan_def split: sum.splits)
  from mode_scan_get_mode[OF ms] obtain column where c: "get_mode vq 0 = Inr column" by blast
  from ms obtain fl sp ps widths where
    loop: "foldE (scan_step env vq par 0) (mem_scan_range par)
             ([], [], [], progress_bar 0 ''M.E. Method'' trajectory) = Inr (fl, sp, ps, t)" and
    w: "index (array_T fl) 1 = Inr widths"
    by (auto simp: mode_scan_def bindE_Inr_iff Let_def)
  from loop have "\<exists>dt t1. get_time_step_average (progress_bar 0 ''M.E. Method'' trajectory) = Inr (dt, t1)
      \<or> mem_scan_range par = []"
    by (cases "mem_scan_range par")
       (auto simp: scan_step_def bindE_Inr_iff split: sum.splits)
  then show False
  proof (elim exE disjE)
    fix dt t1
    assume g: "get_time_step_average (progress_bar 0 ''M.E. Method'' trajectory) = Inr (dt, t1)"
    have "candidate_fit env par column dt n = None" for n
      by (simp add: candidate_fit_def assms(1))
    with scan_loop[OF loop g c] have "fl = []" by simp
    with w show False by (simp add: array_T_def index_def)
  next
    assume "mem_scan_range par = []"
    with loop have "fl = []" by simp
    with w show False by (simp add: array_T_def index_def)
  qed
qed


section \<open>The FFT power spectrum\<close>

lemma correlate_same_centered:
  assumes "x \<noteq> []"
  shows "correlate_same x x =
           Inr (map (\<lambda>j. correlation_at x x (int j - int (length x div 2))) [0..<length x])"
proof -
  let ?N = "length x"
  let ?s = "(?N - 1) div 2"
  have N: "0 < ?N" using assms by simp
  have "take ?N (drop ?s (correlate_full x x)) =
        map (\<lambda>m. correlation_at x x (int m - (int ?N - 1))) [?s..<?s + ?N]"
    using N by (simp add: correlate_full_def take_map drop_map)
  also have "[?s..<?s + ?N] = map (\<lambda>j. j + ?s) [0..<?N]"
    by (simp add: map_add_upt add.commute)
  also have "map (\<lambda>m. correlation_at x x (int m - (int ?N - 1))) (map (\<lambda>j. j + ?s) [0..<?N]) =
        map (\<lambda>j. correlation_at x x (int j - int (?N div 2))) [0..<?N]"
  proof -
    have e: "(?N - 1) div 2 + ?N div 2 = ?N - 1" by presburger
    have a: "int ((?N - 1) div 2) + int (?N div 2) = int (?N - 1)"
      unfolding of_nat_add[symmetric] e ..
    have b: "int (?N - 1) = int ?N - 1" using N by (cases "?N") simp_all
    have "int (j + ?s) - (int ?N - 1) = int j - int (?N div 2)" for j
      using a b by (simp only: of_nat_add)
    then show ?thesis by (simp only: map_map comp_def)
  qed
  finally show ?thesis using assms by (simp add: correlate_same_def)
qed

lemma autocorrelation_centered:
  "x \<noteq> [] \<Longrightarrow> autocorrelation x = Inr (centered_autocorrelation x)"
  by (simp add: autocorrelation_def correlate_same_centered centered_autocorrelation_def)

lemma insort_key_map:
  "insort_key f (g x) (map g ys) = map g (insort_key (\<lambda>i. f (g i)) x ys)"
  by (induction ys) simp_all

lemma sort_key_map:
  "sort_key f (map g xs) = map g (sort_key (\<lambda>i. f (g i)) xs)"
  by (induction xs) (simp_all add: insort_key_map)

lemma zip_as_map:
  "length xs = length ys \<Longrightarrow> zip xs ys = map (\<lambda>i. (xs ! i, ys ! i)) [0..<length xs]"
  by (auto intro!: nth_equalityI)

lemma take_indices_argsort:
  assumes "length ps = length freqs"
  shows "zip (take_indices freqs (argsort freqs)) (take_indices ps (argsort freqs))
           = sort_key fst (zip freqs ps)"
proof -
  have "sort_key fst (zip freqs ps) = map (\<lambda>i. (freqs ! i, ps ! i)) (argsort freqs)"
    using assms by (simp add: zip_as_map sort_key_map argsort_def)
  also have "\<dots> = zip (take_indices freqs (argsort freqs)) (take_indices ps (argsort freqs))"
    by (simp add: take_indices_def zip_map_map zip_same_conv_map)
  finally show ?thesis by simp
qed

lemma length_fftfreq: "0 < n \<Longrightarrow> length (fftfreq n d) = n"
  by (simp add: fftfreq_def)

lemma distinct_fftfreq:
  assumes "d \<noteq> 0" and "0 < n"
  shows "distinct (fftfreq n d)"
proof -
  let ?ks = "map int [0..<(n - 1) div 2 + 1] @ map (\<lambda>i. int i - int (n div 2)) [0..<n div 2]"
  have d1: "distinct (map int [0..<(n - 1) div 2 + 1])"
    by (simp add: distinct_map inj_on_def del: upt_Suc)
  have d2: "distinct (map (\<lambda>i. int i - int (n div 2)) [0..<n div 2])"
    by (simp add: distinct_map inj_on_def)
  have "set (map int [0..<(n - 1) div 2 + 1]) \<inter> set (map (\<lambda>i. int i - int (n div 2)) [0..<n div 2]) = {}"
    by auto
  with d1 d2 have ks: "distinct ?ks" by (simp only: distinct_append)
  define c where "c = 1 / (real n * d)"
  have c: "c \<noteq> 0" using assms by (simp add: c_def)
  have "inj_on (\<lambda>i. real_of_int i * c) (set ?ks)"
    using c by (simp add: inj_on_def)
  with ks have "distinct (map (\<lambda>i. real_of_int i * c) ?ks)"
    using distinct_map by blast
  then show ?thesis unfolding fftfreq_def c_def .
qed


lemma length_centered_autocorrelation [simp]:
  "length (centered_autocorrelation x) = length x"
  by (simp add: centered_autocorrelation_def)

lemma length_fft [simp]: "length (fft xs) = length xs"
  by (simp add: fft_def)

lemma length_argsort [simp]: "length (argsort xs) = length xs"
  by (simp add: argsort_def)

lemma strictly_sorted_spectrum:
  assumes "length ps = length freqs" and "distinct freqs"
  shows "sorted_wrt (<) (map fst (sort_key fst (zip freqs ps)))"
proof -
  let ?zs = "zip freqs ps"
  have "distinct (map fst ?zs)" using assms by simp
  then have "distinct ?zs \<and> inj_on fst (set ?zs)" by (simp only: distinct_map)
  then have "distinct (sort_key fst ?zs) \<and> inj_on fst (set (sort_key fst ?zs))" by simp
  then have "distinct (map fst (sort_key fst ?zs))" by (simp only: distinct_map)
  moreover have "sorted (map fst (sort_key fst ?zs))" by (rule sorted_sort_key)
  ultimately show ?thesis by (simp only: strict_sorted_iff)
qed

text \<open>
  Claim C5.  For a non-empty series, a non-negative pad length and a non-zero time step,
  \<^verbatim>\<open>fft_power\<close> returns the composition the specification words: the centred
  same-length autocorrelation divided by the length, zero-padded on the right, its
  discrete Fourier transform in magnitude times \<open>time_step / 2\<close>, paired with the DFT
  frequencies of the padded length, sorted by frequency, and interpolated linearly on the
  grid.  The sorted axis is strictly ascending and carries each magnitude with its own
  frequency.  Exact arithmetic over the reals and complex numbers.
\<close>

theorem fft_power_composition:
  assumes "data \<noteq> []" and "0 \<le> padding" and "time_step \<noteq> 0"
  shows "fft_power grid data time_step padding =
           Inr (fft_power_spec grid data time_step (nat padding))
       \<and> length (fft_power_spec grid data time_step (nat padding)) = length grid
       \<and> length (sorted_spectrum data time_step (nat padding)) = length data + nat padding
       \<and> set (sorted_spectrum data time_step (nat padding)) =
           set (zip (fftfreq (length data + nat padding) time_step)
                  (magnitude_spectrum data time_step (nat padding)))
       \<and> sorted_wrt (<) (map fst (sorted_spectrum data time_step (nat padding)))"
proof -
  let ?n = "length data + nat padding"
  let ?d2 = "padded_autocorrelation data (nat padding)"
  let ?ps = "magnitude_spectrum data time_step (nat padding)"
  let ?freqs = "fftfreq ?n time_step"
  have n: "0 < ?n" using assms(1) by simp
  have l2: "length ?d2 = ?n" by (simp add: padded_autocorrelation_def)
  have lps: "length ?ps = ?n" by (simp add: magnitude_spectrum_def l2)
  have lf: "length ?freqs = ?n" by (rule length_fftfreq[OF n])
  have pad: "pad_right (centered_autocorrelation data) padding = Inr ?d2"
    using assms(2) by (simp add: pad_right_def padded_autocorrelation_def)
  have z: "zip (take_indices ?freqs (argsort ?freqs)) (take_indices ?ps (argsort ?freqs))
             = sorted_spectrum data time_step (nat padding)"
    unfolding sorted_spectrum_def by (rule take_indices_argsort) (simp add: lps lf)
  have "length (take_indices ?freqs (argsort ?freqs)) = ?n"
    by (simp add: take_indices_def lf)
  with n have ne: "take_indices ?freqs (argsort ?freqs) \<noteq> []"
    by (metis length_0_conv less_numeral_extra(3))
  have le: "length (take_indices ?ps (argsort ?freqs)) = length (take_indices ?freqs (argsort ?freqs))"
    by (simp add: take_indices_def)
  have "fft_power grid data time_step padding =
          np_interp grid (take_indices ?freqs (argsort ?freqs)) (take_indices ?ps (argsort ?freqs))"
    by (simp add: fft_power_def autocorrelation_centered[OF assms(1)] pad Let_def l2
        magnitude_spectrum_def)
  also have "\<dots> = Inr (fft_power_spec grid data time_step (nat padding))"
    using ne le by (simp add: np_interp_def z fft_power_spec_def)
  finally have 1: "fft_power grid data time_step padding =
           Inr (fft_power_spec grid data time_step (nat padding))" .
  have 2: "length (fft_power_spec grid data time_step (nat padding)) = length grid"
    by (simp add: fft_power_spec_def)
  have 3: "length (sorted_spectrum data time_step (nat padding)) = ?n"
    by (simp add: sorted_spectrum_def lps lf)
  have 4: "set (sorted_spectrum data time_step (nat padding)) = set (zip ?freqs ?ps)"
    by (simp add: sorted_spectrum_def)
  have 5: "sorted_wrt (<) (map fst (sorted_spectrum data time_step (nat padding)))"
    unfolding sorted_spectrum_def
    by (rule strictly_sorted_spectrum) (simp_all add: lps lf distinct_fftfreq[OF assms(3) n])
  from 1 2 3 4 5 show ?thesis by blast
qed


lemma example_centered: "centered_autocorrelation [1, 1] = [1 / 2, 1]"
proof -
  have up: "[0..<2] = [0, 1]" by (simp add: upt_rec)
  show ?thesis
    by (simp add: centered_autocorrelation_def correlation_at_def up)
qed

lemma example_fft: "fft [1 / 2, 1] = [3 / 2, - 1 / 2]"
proof -
  have up: "[0..<2] = [0, 1]" by (simp add: upt_rec)
  have "cis (- pi) = - 1" by (simp add: cis_cnj[symmetric] flip: cis_cnj)
  then show ?thesis
    by (simp add: fft_def up)
qed

lemma example_sorted_spectrum: "sorted_spectrum [1, 1] 1 0 = [(- 1 / 2, 1 / 4), (0, 3 / 4)]"
  by (simp add: sorted_spectrum_def magnitude_spectrum_def padded_autocorrelation_def
      example_centered example_fft fftfreq_def)

theorem fft_power_composition_witness:
  "fft_power [- 1 / 4, 0, 1] [1, 1] 1 0 = Inr [1 / 2, 3 / 4, 3 / 4]
   \<and> fft_power_spec [- 1 / 4, 0, 1] [1, 1] 1 (nat 0) = [1 / 2, 3 / 4, 3 / 4]
   \<and> sorted_spectrum [1, 1] 1 (nat 0) = [(- 1 / 2, 1 / 4), (0, 3 / 4)]"
proof -
  have a: "[1, 1 :: complex] \<noteq> []" "(0::int) \<le> 0" "(1::real) \<noteq> 0" by simp_all
  have s: "fft_power_spec [- 1 / 4, 0, 1] [1, 1] 1 (nat 0) = [1 / 2, 3 / 4, 3 / 4]"
    by (simp add: fft_power_spec_def example_sorted_spectrum)
  from fft_power_composition[OF a, of "[- 1 / 4, 0, 1]"] s example_sorted_spectrum
  show ?thesis by simp
qed


section \<open>Cropping to a positive number of steps\<close>

text \<open>
  For last_steps \<ge> 1 the slice keeps the last \<open>min last_steps M\<close> samples; with a
  velocity supplied, the call returns and crops the four series alike.
\<close>

lemma slice_from_last:
  assumes "0 < n"
  shows "slice_from (- n) xs = drop (length xs - nat n) xs"
    and "length (slice_from (- n) xs) = min (nat n) (length xs)"
proof -
  show e: "slice_from (- n) xs = drop (length xs - nat n) xs"
  proof (cases "n \<le> int (length xs)")
    case True
    then have "nat (int (length xs) - n) = length xs - nat n" using assms by linarith
    with True assms show ?thesis by (simp add: slice_from_def Let_def max_def)
  next
    case False
    with assms show ?thesis by (simp add: slice_from_def Let_def max_def)
  qed
  show "length (slice_from (- n) xs) = min (nat n) (length xs)"
    unfolding e by simp
qed

lemma crop_trajectory_positive:
  assumes "0 < n" and "velocity_f s = Some v"
  shows "\<exists>s'. crop_trajectory env (Some n) s = Inr s'
           \<and> trajectory_f s' = map_option (slice_from (- n)) (trajectory_f s)
           \<and> energy_f s' = map_option (slice_from (- n)) (energy_f s)
           \<and> time_f s' = map_option (slice_from (- n)) (time_f s)
           \<and> velocity_f s' = Some (slice_from (- n) v)"
proof -
  let ?c = "crop_stored n s"
  have f: "trajectory_f ?c = map_option (slice_from (- n)) (trajectory_f s)"
    "energy_f ?c = map_option (slice_from (- n)) (energy_f s)"
    "time_f ?c = map_option (slice_from (- n)) (time_f s)"
    "velocity_f ?c = Some v"
    using assms(2) by (simp_all add: crop_stored_def Let_def print_def split: option.splits)
  let ?s5 = "if n > int (length v) then print Warning_step_number_larger ?c else ?c"
  let ?s7 = "?s5\<lparr>velocity_f := Some (slice_from (- n) v),
                      velocity_mass_average_f := None, relative_trajectory_f := None\<rparr>"
  have v5: "velocity env ?s5 = Inr (v, ?s5)"
    by (rule velocity_present) (simp add: f print_def)
  have v7: "velocity env ?s7 = Inr (slice_from (- n) v, ?s7)" by (rule velocity_present) simp
  have "crop_trajectory env (Some n) s = Inr (print (Using_steps (length (slice_from (- n) v))) ?s7)"
    using assms(1) velocity_present[OF f(4), of env] v5 v7
    by (simp add: crop_trajectory_def Let_def)
  then show ?thesis
    using f by (simp add: print_def)
qed


section \<open>The coefficient scan completes and selects\<close>

lemma scan_loop_total:
  assumes "get_time_step_average t = Inr (dt, t1)" and "get_mode vq i = Inr column"
    and "\<forall>n \<in> set cands. length (candidate_spectrum env par column dt n) = length (frequency_range par)"
    and "frequency_range par \<noteq> []" and "last (mem_scan_range par) \<noteq> 0"
  shows "\<exists>r. foldE (scan_step env vq par i) cands (fd, sp, ps, t) = Inr r"
  using assms(1,3)
proof (induction cands arbitrary: fd sp ps t t1)
  case Nil
  then show ?case by (simp del: split_paired_Ex)
next
  case (Cons n cands)
  let ?s = "candidate_spectrum env par column dt n"
  have len: "length ?s = length (frequency_range par)" using Cons.prems(2) by simp
  then have ne: "?s \<noteq> []" using assms(4) by auto
  then have "Max (set ?s) \<in> set ?s" by (intro Max_in) auto
  from first_index_less[OF this] len
  have idx: "first_index ?s (Max (set ?s)) < length (frequency_range par)" by simp
  have "\<exists>fd' sp' ps' t'. scan_step env vq par i n (fd, sp, ps, t) = Inr (fd', sp', ps', t')
           \<and> get_time_step_average t' = Inr (dt, t')"
    unfolding scan_step_unfold[OF Cons.prems(1) assms(2)]
    using ne idx assms(5) get_time_step_average_stable[OF Cons.prems(1)] by simp
  then obtain fd' sp' ps' t' where
    step: "scan_step env vq par i n (fd, sp, ps, t) = Inr (fd', sp', ps', t')" and
    t': "get_time_step_average t' = Inr (dt, t')"
    by blast
  from Cons.IH[OF t', of fd' sp' ps'] Cons.prems(2) obtain r where
    "foldE (scan_step env vq par i) cands (fd', sp', ps', t') = Inr r" by auto
  with step show ?case by (simp del: split_paired_Ex)
qed

lemma sum_list_weights_pos:
  assumes "es \<noteq> []" and "\<forall>e \<in> set es. 0 < e"
  shows "0 < (\<Sum>e \<leftarrow> es. sqrt (1 / e))"
  using assms
proof (induction es)
  case Nil
  then show ?case by simp
next
  case (Cons e es)
  have "0 < sqrt (1 / e)" using Cons.prems(2) by simp
  moreover have "0 \<le> (\<Sum>e \<leftarrow> es. sqrt (1 / e))"
    using Cons.prems(2) by (intro sum_list_nonneg) auto
  ultimately have "0 < sqrt (1 / e) + (\<Sum>e \<leftarrow> es. sqrt (1 / e))"
    by (rule add_pos_nonneg)
  then show ?case by simp
qed

lemma mode_scan_total:
  assumes "get_time_step_average tr = Inr (dt, t1)" and "get_mode vq i = Inr column"
    and "\<forall>n \<in> set (mem_scan_range par).
           length (candidate_spectrum env par column dt n) = length (frequency_range par)"
    and "frequency_range par \<noteq> []"
    and "successful_candidates env par column dt \<noteq> []"
    and "\<forall>n \<in> set (successful_candidates env par column dt).
           0 < recorded_triple env par column dt n ! 2"
    and "last (mem_scan_range par) \<noteq> 0"
  shows "\<exists>e tr'. mode_scan env vq par i tr = Inr (e, tr')"
proof -
  let ?succ = "successful_candidates env par column dt"
  let ?R = "recorded_triple env par column dt"
  obtain m where m: "progress_bar 0 ''M.E. Method'' tr = print m tr"
    using progress_bar_print by blast
  have g0: "get_time_step_average (progress_bar 0 ''M.E. Method'' tr) = Inr (dt, print m t1)"
    unfolding m get_time_step_average_print using assms(1) by simp
  from scan_loop_total[OF g0 assms(2,3,4,7)] obtain fl sp ps tr' where
    loop: "foldE (scan_step env vq par i) (mem_scan_range par)
             ([], [], [], progress_bar 0 ''M.E. Method'' tr) = Inr (fl, sp, ps, tr')"
    by (metis prod_cases4)
  from scan_loop[OF loop g0 assms(2)] have
    fl: "fl = map ?R ?succ" and
    ps: "ps = map (candidate_spectrum env par column dt) ?succ"
    by (auto simp: successful_candidates_def)
  have ok: "\<forall>n \<in> set ?succ. candidate_fit env par column dt n \<noteq> None"
    by (simp add: successful_candidates_def)
  have T: "array_T fl = [map (\<lambda>n. ?R n ! 0) ?succ, map (\<lambda>n. ?R n ! 1) ?succ, map (\<lambda>n. ?R n ! 2) ?succ]"
    unfolding fl array_T_def
    by (rule transpose_triples[OF assms(5)]) (use ok length_recorded_triple in blast)
  let ?errors = "map (\<lambda>n. ?R n ! 2) ?succ"
  have w: "(\<Sum>e \<leftarrow> ?errors. sqrt (1 / e)) \<noteq> 0"
    using sum_list_weights_pos[of ?errors] assms(5,6) by auto
  have ne: "?errors \<noteq> []" using assms(5) by simp
  then have "Min (set ?errors) \<in> set ?errors" by (intro Min_in) auto
  from first_index_less[OF this] have
    bi: "first_index ?errors (Min (set ?errors)) < length ps" by (simp add: ps)
  show ?thesis
    using w ne bi
    by (simp add: mode_scan_def loop T index_def np_average_def np_argmin_def Let_def comp_def)
qed

lemma report_mode_total:
  assumes "d i = Some e" and "entry_best_index e < length (entry_scan_params e)"
    and "length (entry_fit_data e) = 3"
    and "entry_best_index e < length (entry_fit_data e ! 0)"
    and "entry_fit_data e ! 2 \<noteq> []"
  shows "\<exists>t'. report_mode i (d, t) = Inr (d, t')"
  using assms by (simp add: report_mode_def index_def np_min_def Let_def)


lemma report_modes_total:
  assumes "\<forall>i \<in> set xs. \<exists>e. d i = Some e \<and> entry_best_index e < length (entry_scan_params e)
             \<and> length (entry_fit_data e) = 3
             \<and> entry_best_index e < length (entry_fit_data e ! 0)
             \<and> entry_fit_data e ! 2 \<noteq> []"
  shows "\<exists>t'. foldE report_mode xs (d, t) = Inr (d, t')"
  using assms
proof (induction xs arbitrary: t)
  case Nil
  then show ?case by simp
next
  case (Cons i xs)
  from Cons.prems obtain e where e: "d i = Some e" "entry_best_index e < length (entry_scan_params e)"
    "length (entry_fit_data e) = 3" "entry_best_index e < length (entry_fit_data e ! 0)"
    "entry_fit_data e ! 2 \<noteq> []"
    by auto
  from report_mode_total[of d i e t, OF e] obtain t2 where "report_mode i (d, t) = Inr (d, t2)" by blast
  moreover from Cons.IH[of t2] Cons.prems obtain t' where
    "foldE report_mode xs (d, t2) = Inr (d, t')" by auto
  ultimately show ?case by simp
qed

lemma get_mode_column:
  "i < shape1 vq \<Longrightarrow> \<forall>r \<in> set (rows vq). length r = shape1 vq \<Longrightarrow>
     get_mode vq i = Inr (map (\<lambda>r. r ! i) (rows vq))"
  by (simp add: get_mode_def)

lemma scan_modes_total:
  fixes trajectory :: "'b dynamics"
  assumes "get_time_step_average trajectory = Inr (dt, t1)"
    and "\<forall>r \<in> set (rows vq). length r = shape1 vq"
    and "frequency_range par \<noteq> []"
    and "\<forall>j < shape1 vq. \<forall>n \<in> set (mem_scan_range par).
           length (candidate_spectrum env par (map (\<lambda>r. r ! j) (rows vq)) dt n)
             = length (frequency_range par)"
    and "\<forall>j < shape1 vq. successful_candidates env par (map (\<lambda>r. r ! j) (rows vq)) dt \<noteq> []"
    and "\<forall>j < shape1 vq. \<forall>n \<in> set (successful_candidates env par (map (\<lambda>r. r ! j) (rows vq)) dt).
           0 < recorded_triple env par (map (\<lambda>r. r ! j) (rows vq)) dt n ! 2"
    and "last (mem_scan_range par) \<noteq> 0"
    and "k \<le> shape1 vq"
  shows "\<exists>d t'. foldE (store_mode_scan env vq par) [0..<k] (d0, trajectory) = Inr (d, t')"
  using assms(8)
proof (induction k)
  case 0
  then show ?case by simp
next
  case (Suc k)
  then obtain dm tm where
    mid: "foldE (store_mode_scan env vq par) [0..<k] (d0, trajectory) = Inr (dm, tm)"
    by auto
  from scan_modes_loop[OF mid assms(1)] obtain tj where
    tm: "get_time_step_average tm = Inr (dt, tj)" by blast
  have k: "k < shape1 vq" using Suc.prems by simp
  from mode_scan_total[OF tm get_mode_column[OF k assms(2)], of par env] assms(3,4,5,6,7) k
  obtain e t' where "mode_scan env vq par k tm = Inr (e, t')" by blast
  then have "store_mode_scan env vq par k (dm, tm) = Inr (dm(k \<mapsto> e), t')"
    by (simp add: store_mode_scan_def)
  with mid show ?case by (auto simp: foldE_snoc simp del: split_paired_Ex)
qed

text \<open>
  When every mode has a successful fit.  On a well-shaped mode matrix with a time step
  available, a non-empty frequency grid to which the solver's spectra are aligned, a scan
  range whose last entry is not 0, and for every mode at least one successful fit with
  positive normalized errors, \<^verbatim>\<open>mem_coefficient_scan_analysis\<close> completes, and the entry
  stored for a mode holds: the table of the triples (coefficient count, 2 \<times> half-width,
  covariance error / (area scale / (half-width \<times> pi))) of exactly the candidates whose
  fit succeeded, in scan order; as best width the average of the recorded widths weighted
  by \<open>sqrt (1 / normalized error)\<close>; and as best index a recorded candidate of minimum
  normalized error, whose spectrum is the stored spectrum and whose Lorentzian parameters
  and coefficient count are the stored ones at that index.  Exact real arithmetic.
\<close>

lemma scan_analysis_selection:
  fixes trajectory :: "'b dynamics"
  assumes "get_time_step_average trajectory = Inr (dt, t1)"
    and "\<forall>r \<in> set (rows vq). length r = shape1 vq"
    and "frequency_range par \<noteq> []"
    and "\<forall>j < shape1 vq. \<forall>n \<in> set (mem_scan_range par).
           length (candidate_spectrum env par (map (\<lambda>r. r ! j) (rows vq)) dt n)
             = length (frequency_range par)"
    and "\<forall>j < shape1 vq. successful_candidates env par (map (\<lambda>r. r ! j) (rows vq)) dt \<noteq> []"
    and "\<forall>j < shape1 vq. \<forall>n \<in> set (successful_candidates env par (map (\<lambda>r. r ! j) (rows vq)) dt).
           0 < recorded_triple env par (map (\<lambda>r. r ! j) (rows vq)) dt n ! 2"
    and "last (mem_scan_range par) \<noteq> 0"
    and "i < shape1 vq" and "column = map (\<lambda>r. r ! i) (rows vq)"
  shows "\<exists>mem_full_dict trajectory' e.
         mem_coefficient_scan_analysis env vq trajectory par = Inr (mem_full_dict, trajectory')
       \<and> mem_full_dict i = Some e
       \<and> entry_fit_data e =
           [map real_of_int (successful_candidates env par column dt),
            map (\<lambda>n. recorded_triple env par column dt n ! 1) (successful_candidates env par column dt),
            map (\<lambda>n. recorded_triple env par column dt n ! 2) (successful_candidates env par column dt)]
       \<and> entry_scan_params e =
           map (fitted_parameters env par column dt) (successful_candidates env par column dt)
       \<and> entry_best_width e = weighted_average_width (entry_fit_data e ! 1) (entry_fit_data e ! 2)
       \<and> entry_best_index e < length (successful_candidates env par column dt)
       \<and> (\<forall>k < length (successful_candidates env par column dt).
             entry_fit_data e ! 2 ! entry_best_index e \<le> entry_fit_data e ! 2 ! k)
       \<and> entry_power_spectrum e =
           candidate_spectrum env par column dt
             (successful_candidates env par column dt ! entry_best_index e)
       \<and> entry_scan_params e ! entry_best_index e =
           fitted_parameters env par column dt
             (successful_candidates env par column dt ! entry_best_index e)
       \<and> entry_fit_data e ! 0 ! entry_best_index e =
           real_of_int (successful_candidates env par column dt ! entry_best_index e)"
proof -
  from scan_modes_total[OF assms(1-7) order_refl, of Map.empty] obtain d tm where
    scan: "foldE (store_mode_scan env vq par) [0..<shape1 vq] (Map.empty, trajectory) = Inr (d, tm)"
    by blast
  note loop = scan_modes_loop[OF scan assms(1)]
  have "\<exists>e. d j = Some e \<and> entry_best_index e < length (entry_scan_params e)
             \<and> length (entry_fit_data e) = 3
             \<and> entry_best_index e < length (entry_fit_data e ! 0)
             \<and> entry_fit_data e ! 2 \<noteq> []" if j: "j < shape1 vq" for j
  proof -
    from loop j obtain e and ti :: "'b dynamics" and ti' tj where
      e: "d j = Some e" and ms: "mode_scan env vq par j ti = Inr (e, ti')" and
      ti: "get_time_step_average ti = Inr (dt, tj)"
      by blast
    note r = mode_scan_Inr[OF ms ti get_mode_column[OF j assms(2)]]
    from r e show ?thesis by simp
  qed
  then have "\<forall>j \<in> set [0..<shape1 vq]. \<exists>e. d j = Some e
             \<and> entry_best_index e < length (entry_scan_params e)
             \<and> length (entry_fit_data e) = 3
             \<and> entry_best_index e < length (entry_fit_data e ! 0)
             \<and> entry_fit_data e ! 2 \<noteq> []"
    by simp
  from report_modes_total[OF this] obtain t' where
    "foldE report_mode [0..<shape1 vq] (d, tm) = Inr (d, t')" by blast
  with scan have run: "mem_coefficient_scan_analysis env vq trajectory par = Inr (d, t')"
    by (simp add: mem_coefficient_scan_analysis_def)
  have gm: "get_mode vq i = Inr column"
    unfolding assms(9) by (rule get_mode_column[OF assms(8,2)])
  from mem_coefficient_scan_analysis_entries[OF run assms(1,8) gm] run
  show ?thesis by blast
qed


lemma example_scan_analysis_selection:
  "mem_coefficient_scan_analysis example_fitting example_vq example_trajectory example_scan_parameters =
     Inr ([0 \<mapsto> \<lparr>entry_power_spectrum = [2, 3], entry_best_width = 2, entry_best_index = 0,
                   entry_fit_data = [[2, 3], [2, 2], [1, 4]],
                   entry_scan_params = [(1, 1, pi, 0), (1, 1, pi, 0)]\<rparr>],
          example_trajectory\<lparr>time_step_average_f := Some 1,
            stdout := [Progress ''M.E. Method'' 0 [], Fitting_error_skipping_point 1,
                       Progress ''M.E. Method'' 1 ''Done...'', Progress ''M.E. Method'' 1 ''Done...'',
                       Peak_number 1, Separator_line, Estimated_width 2, Position 1,
                       Optimum_coefficients_num 2, Fitting_error 1, Newline]\<rparr>)
   \<and> successful_candidates example_fitting example_scan_parameters [1, 2, 3] 1 = [2, 3]
   \<and> weighted_average_width [2, 2] [1, 4] = 2
   \<and> candidate_spectrum example_fitting example_scan_parameters [1, 2, 3] 1 2 = [2, 3]"
proof -
  let ?e = "\<lparr>entry_power_spectrum = [2, 3], entry_best_width = 2, entry_best_index = 0,
                   entry_fit_data = [[2, 3], [2, 2], [1, 4]],
                   entry_scan_params = [(1, 1, pi, 0), (1, 1, pi, 0)]\<rparr>"
  have col: "map (\<lambda>r. r ! j) (rows example_vq) = [1, 2, 3]" if "j < shape1 example_vq" for j
    using that by (simp add: example_vq_def)
  have s: "successful_candidates example_fitting example_scan_parameters [1, 2, 3] 1 = [2, 3]"
    by (simp add: successful_candidates_def ex_cf ex_par)
  have h2: "\<forall>r \<in> set (rows example_vq). length r = shape1 example_vq"
    by (simp add: example_vq_def)
  have h3: "frequency_range example_scan_parameters \<noteq> []" by (simp add: ex_par)
  have h4: "\<forall>j < shape1 example_vq. \<forall>n \<in> set (mem_scan_range example_scan_parameters).
           length (candidate_spectrum example_fitting example_scan_parameters
                     (map (\<lambda>r. r ! j) (rows example_vq)) 1 n)
             = length (frequency_range example_scan_parameters)"
    by (simp add: col ex_cf ex_par)
  have h5: "\<forall>j < shape1 example_vq. successful_candidates example_fitting example_scan_parameters
              (map (\<lambda>r. r ! j) (rows example_vq)) 1 \<noteq> []"
    by (simp add: col s)
  have h6: "\<forall>j < shape1 example_vq. \<forall>n \<in> set (successful_candidates example_fitting
              example_scan_parameters (map (\<lambda>r. r ! j) (rows example_vq)) 1).
           0 < recorded_triple example_fitting example_scan_parameters
                 (map (\<lambda>r. r ! j) (rows example_vq)) 1 n ! 2"
    by (simp add: col s ex_rec)
  have h7: "0 < shape1 example_vq" by (simp add: example_vq_def)
  have h8: "[1, 2, 3] = map (\<lambda>r. r ! 0) (rows example_vq)" by (simp add: example_vq_def)
  have h9: "last (mem_scan_range example_scan_parameters) \<noteq> 0" by (simp add: ex_par)
  from scan_analysis_selection[OF example_time_step h2 h3 h4 h5 h6 h9 h7 h8]
  obtain d t' e where
    run: "mem_coefficient_scan_analysis example_fitting example_vq example_trajectory
            example_scan_parameters = Inr (d, t')" and
    e0: "d (0::nat) = Some e" and
    bw: "entry_best_width e = weighted_average_width (entry_fit_data e ! 1) (entry_fit_data e ! 2)"
    by blast
  from run example_analysis have "d = [0 \<mapsto> ?e]" by simp
  with e0 have "e = ?e" by simp
  with bw have "weighted_average_width [2, 2] [1, 4] = 2" by simp
  with example_analysis s show ?thesis by (simp add: ex_cf)
qed


subsection \<open>A mode without a successful fit\<close>

lemma mx_gm: "get_mode example_mixed_vq 0 = Inr [1, 2, 3]"
  "get_mode example_mixed_vq 1 = Inr [0, 0, 0]"
  "get_mode example_mixed_vq (Suc 0) = Inr [0, 0, 0]"
  by (simp_all add: get_mode_def example_mixed_vq_def)

lemma mx_cf:
  "candidate_spectrum example_mixed_fitting example_scan_parameters [1, 2, 3] 1 n
     = [real_of_int n, 1 + real_of_int n]"
  "candidate_fit example_mixed_fitting example_scan_parameters [1, 2, 3] 1 n =
     (if n \<le> 1 then None else Some ((1, 1, pi, 0), (real_of_int n - 1)\<^sup>2))"
  "candidate_spectrum example_mixed_fitting example_scan_parameters [0, 0, 0] 1 n = [0, 0]"
  "candidate_fit example_mixed_fitting example_scan_parameters [0, 0, 0] 1 n = None"
  by (auto simp: candidate_spectrum_def candidate_fit_def example_mixed_fitting_def
      example_scan_parameters_def lorentzian_seed_def)

lemma mx_err: "get_error_from_covariance example_mixed_fitting c = c"
  by (simp add: example_mixed_fitting_def)

lemma mx_rec:
  "recorded_triple example_mixed_fitting example_scan_parameters [1, 2, 3] 1 2 = [2, 2, 1]"
  "recorded_triple example_mixed_fitting example_scan_parameters [1, 2, 3] 1 3 = [3, 2, 4]"
  "fitted_parameters example_mixed_fitting example_scan_parameters [1, 2, 3] 1 2 = (1, 1, pi, 0)"
  "fitted_parameters example_mixed_fitting example_scan_parameters [1, 2, 3] 1 3 = (1, 1, pi, 0)"
  by (simp_all add: recorded_triple_def fitted_parameters_def mx_cf half_width_def area_scale_def
      mx_err)

lemma mx_first_mode:
  "mode_scan example_mixed_fitting example_mixed_vq example_scan_parameters 0 example_trajectory =
   Inr (\<lparr>entry_power_spectrum = [2, 3], entry_best_width = 2, entry_best_index = 0,
         entry_fit_data = [[2, 3], [2, 2], [1, 4]],
         entry_scan_params = [(1, 1, pi, 0), (1, 1, pi, 0)]\<rparr>,
        example_trajectory\<lparr>time_step_average_f := Some 1,
          stdout := [Progress ''M.E. Method'' 0 [], Fitting_error_skipping_point 1,
                     Progress ''M.E. Method'' 1 ''Done...'', Progress ''M.E. Method'' 1 ''Done...'']\<rparr>)"
  by (simp add: mode_scan_def progress_bar_def print_def scan_step_unfold[OF ex_ts mx_gm(1)]
        scan_step_unfold[OF ex_ts0 mx_gm(1)] mx_cf ex_par mx_rec ex_T Let_def
       array_T_def index_def np_average_def np_argmin_def real_sqrt_divide ex_out)

lemma mx_second_mode:
  "mode_scan example_mixed_fitting example_mixed_vq example_scan_parameters (Suc 0)
     (example_trajectory\<lparr>time_step_average_f := Some 1, stdout := out\<rparr>) = Inl IndexError"
  by (simp add: mode_scan_def progress_bar_def print_def scan_step_unfold[OF ex_ts mx_gm(3)]
        mx_cf ex_par Let_def array_T_def index_def)

text \<open>
  Claim C6, evaluated on a two-mode matrix with the scan range [1, 2, 3].  The first mode
  records two successful fits (candidates 2 and 3), and its scan selects candidate 2 with
  best width 2.  The second mode records none: its table \<^verbatim>\<open>fit_data\<close> stays empty and
  \<^verbatim>\<open>fit_data[1]\<close> raises IndexError, which leaves the routine before the reporting loop
  is reached.  So nothing is reported or returned for the first mode either, although it
  has a successful fit.
\<close>

theorem mem_coefficient_scan_analysis_mixed_modes:
  "mem_coefficient_scan_analysis example_mixed_fitting example_mixed_vq example_trajectory
     example_scan_parameters = Inl IndexError
   \<and> map (\<lambda>r. r ! 0) (rows example_mixed_vq) = [1, 2, 3]
   \<and> successful_candidates example_mixed_fitting example_scan_parameters [1, 2, 3] 1 = [2, 3]
   \<and> mode_scan example_mixed_fitting example_mixed_vq example_scan_parameters 0 example_trajectory =
       Inr (\<lparr>entry_power_spectrum = [2, 3], entry_best_width = 2, entry_best_index = 0,
             entry_fit_data = [[2, 3], [2, 2], [1, 4]],
             entry_scan_params = [(1, 1, pi, 0), (1, 1, pi, 0)]\<rparr>,
            example_trajectory\<lparr>time_step_average_f := Some 1,
              stdout := [Progress ''M.E. Method'' 0 [], Fitting_error_skipping_point 1,
                         Progress ''M.E. Method'' 1 ''Done...'',
                         Progress ''M.E. Method'' 1 ''Done...'']\<rparr>)
   \<and> map (\<lambda>r. r ! 1) (rows example_mixed_vq) = [0, 0, 0]
   \<and> successful_candidates example_mixed_fitting example_scan_parameters [0, 0, 0] 1 = []
   \<and> get_time_step_average example_trajectory =
       Inr (1, example_trajectory\<lparr>time_step_average_f := Some 1\<rparr>)"
proof -
  have up: "[0..<shape1 example_mixed_vq] = [0, 1]"
    by (simp add: example_mixed_vq_def upt_rec)
  have "mem_coefficient_scan_analysis example_mixed_fitting example_mixed_vq example_trajectory
     example_scan_parameters = Inl IndexError"
    unfolding mem_coefficient_scan_analysis_def up
    by (simp add: store_mode_scan_def mx_first_mode mx_second_mode)
  moreover have "successful_candidates example_mixed_fitting example_scan_parameters [1, 2, 3] 1 = [2, 3]"
    "successful_candidates example_mixed_fitting example_scan_parameters [0, 0, 0] 1 = []"
    by (simp_all add: successful_candidates_def mx_cf ex_par)
  ultimately show ?thesis
    using mx_first_mode example_time_step by (simp add: example_mixed_vq_def)
qed

text \<open>
  With the scan range [2, 0] the first candidate of the one-mode example is fitted, and
  the progress quotient then divides by the last entry of the range: ZeroDivisionError.
\<close>

lemma scan_zero_last_entry:
  "mem_coefficient_scan_analysis example_fitting example_vq example_trajectory example_zero_range
     = Inl ZeroDivisionError"
proof -
  have up: "[0..<shape1 example_vq] = [0]" by (simp add: example_vq_def)
  have par: "mem_scan_range example_zero_range = [2, 0]"
    "frequency_range example_zero_range = [0, 1]"
    by (simp_all add: example_zero_range_def)
  have cs: "candidate_spectrum example_fitting example_zero_range [1, 2, 3] 1 2 = [2, 3]"
    by (simp add: candidate_spectrum_def example_fitting_def par)
  have "curve_fit example_fitting f p (x, w, 3, b) \<noteq> None" for f p x w b
    by (simp add: example_fitting_def)
  then have cf: "candidate_fit example_fitting example_zero_range [1, 2, 3] 1 2 \<noteq> None"
    by (simp add: candidate_fit_def lorentzian_seed_def cs par)
  have "mode_scan example_fitting example_vq example_zero_range 0 example_trajectory
      = Inl ZeroDivisionError"
    by (simp add: mode_scan_def progress_bar_def print_def scan_step_unfold[OF ex_ts0 ex_gm]
        cs cf par)
  then show ?thesis
    unfolding mem_coefficient_scan_analysis_def up by (simp add: store_mode_scan_def)
qed

end
